theory Spec2Isabelle
  imports Main "HOL-Library.Sublist"
begin

section \<open>JavaScript values used by the handlers\<close>

text \<open>
  The handlers of \<^verbatim>\<open>src/api/index.js\<close> read loosely typed documents. The fields are given
  the types of the data model (a task id is a string, \<^verbatim>\<open>completed\<close> a boolean); a field that
  may be missing from a document is an \<open>option\<close>, \<open>None\<close> standing for \<^verbatim>\<open>undefined\<close>.
  Strings are lists of 8-bit characters: a UTF-16 code unit above 255 is outside the model.
  What the handlers get from their collaborators (the document store, the calendar provider,
  the runtime's Date) is an argument of the model, and what they do to them is returned as a
  list of effects.
\<close>

text \<open>Truthiness of an optional string: \<^verbatim>\<open>undefined\<close> and the empty string are falsy.\<close>

definition truthy :: "string option \<Rightarrow> bool" where
  "truthy v = (case v of None \<Rightarrow> False | Some s \<Rightarrow> s \<noteq> [])"

text \<open>\<^verbatim>\<open>a || b\<close> on an optional string with a string default.\<close>

definition or_default :: "string option \<Rightarrow> string \<Rightarrow> string" where
  "or_default v d = (case v of None \<Rightarrow> d | Some s \<Rightarrow> if s = [] then d else s)"

text \<open>A value of type string option inside a template literal.\<close>

definition template :: "string option \<Rightarrow> string" where
  "template v = (case v of None \<Rightarrow> ''undefined'' | Some s \<Rightarrow> s)"

text \<open>A non-negative integer inside a template literal: its decimal digits.\<close>

definition digit :: "nat \<Rightarrow> char" where
  "digit d = ''0123456789'' ! d"

function show_nat :: "nat \<Rightarrow> string" where
  "show_nat n = (if n < 10 then [digit n] else show_nat (n div 10) @ [digit (n mod 10)])"
  by pat_completeness auto
termination
  by (relation "measure (\<lambda>n. n)") auto

declare show_nat.simps [simp del]

section \<open>Tasks and the task filter\<close>

record task =
  t_id :: string
  t_text :: string
  dueDate :: string
  startTime :: "string option"
  endTime :: "string option"
  category :: "string option"
  completed :: bool

text \<open>
  \<^verbatim>\<open>Array.prototype.filter\<close>: visits the elements in index order and appends each one the
  callback accepts to a new array.
\<close>

fun Array_filter_loop :: "('a \<Rightarrow> bool) \<Rightarrow> 'a list \<Rightarrow> 'a list \<Rightarrow> 'a list" where
  "Array_filter_loop p [] out = out"
| "Array_filter_loop p (x # xs) out = Array_filter_loop p xs (if p x then out @ [x] else out)"

definition Array_filter :: "('a \<Rightarrow> bool) \<Rightarrow> 'a list \<Rightarrow> 'a list" where
  "Array_filter p xs = Array_filter_loop p xs []"

text \<open>
  \<^verbatim>\<open>allTasks.filter((task) => task.startTime && task.endTime && !task.completed)\<close>
\<close>

definition tasksToSync :: "task list \<Rightarrow> task list" where
  "tasksToSync allTasks =
     Array_filter (\<lambda>task. truthy (startTime task) \<and> truthy (endTime task) \<and> \<not> completed task)
       allTasks"

text \<open>
  The eligibility predicate in the words of the specification: start time present, end time
  present, not completed.
\<close>

definition spec_eligible :: "task \<Rightarrow> bool" where
  "spec_eligible t = (startTime t \<noteq> None \<and> endTime t \<noteq> None \<and> completed t = False)"

text \<open>The predicate with "present" read as "present and not the empty string".\<close>

definition nonempty_eligible :: "task \<Rightarrow> bool" where
  "nonempty_eligible t =
     (startTime t \<noteq> None \<and> startTime t \<noteq> Some [] \<and>
      endTime t \<noteq> None \<and> endTime t \<noteq> Some [] \<and> completed t = False)"

section \<open>The event identifier\<close>

text \<open>
  A character class range \<^verbatim>\<open>lo-hi\<close> of a regular expression compares character codes.
\<close>

definition in_range :: "char \<Rightarrow> char \<Rightarrow> char \<Rightarrow> bool" where
  "in_range lo hi c = ((of_char lo :: nat) \<le> of_char c \<and> (of_char c :: nat) \<le> of_char hi)"

text \<open>The class \<^verbatim>\<open>[^a-zA-Z0-9]\<close>.\<close>

definition nonAlnum :: "char \<Rightarrow> bool" where
  "nonAlnum c = (\<not> (in_range CHR ''a'' CHR ''z'' c \<or> in_range CHR ''A'' CHR ''Z'' c
                     \<or> in_range CHR ''0'' CHR ''9'' c))"

text \<open>
  \<^verbatim>\<open>s.replace(/[cls]/g, r)\<close> for a one-character class and a replacement without \<^verbatim>\<open>$\<close>
  patterns: every matching character is replaced, the others are kept.
\<close>

fun replace_class :: "(char \<Rightarrow> bool) \<Rightarrow> string \<Rightarrow> string \<Rightarrow> string" where
  "replace_class m r [] = []"
| "replace_class m r (c # cs) =
     (if m c then r @ replace_class m r cs else c # replace_class m r cs)"

text \<open>
  \<^verbatim>\<open>const eventId = `momentum${task.id.replace(/[^a-zA-Z0-9]/g, "")}`;\<close>
\<close>

definition eventId :: "task \<Rightarrow> string" where
  "eventId task = ''momentum'' @ replace_class nonAlnum [] (t_id task)"

text \<open>
  The specification's \<open>sanitize\<close>: remove every character that is not one of the 62 letters and
  digits.
\<close>

definition alnum_chars :: string where
  "alnum_chars = ''ABCDEFGHIJKLMNOPQRSTUVWXYZabcdefghijklmnopqrstuvwxyz0123456789''"

definition spec_sanitize :: "string \<Rightarrow> string" where
  "spec_sanitize s = filter (\<lambda>c. c \<in> set alnum_chars) s"

section \<open>The Date of the runtime\<close>

text \<open>
  A time value is a number of milliseconds since 1970-01-01T00:00Z; \<open>None\<close> stands for NaN,
  the time value of an invalid Date. Days are counted in the proleptic Gregorian calendar.
\<close>

definition days_from_civil :: "int \<Rightarrow> int \<Rightarrow> int \<Rightarrow> int" where
  "days_from_civil y m d =
     (let y' = (if m \<le> 2 then y - 1 else y);
          era = y' div 400;
          yoe = y' - era * 400;
          doy = (153 * (if m > 2 then m - 3 else m + 9) + 2) div 5 + d - 1;
          doe = yoe * 365 + yoe div 4 - yoe div 100 + doy
      in era * 146097 + doe - 719468)"

definition civil_from_days :: "int \<Rightarrow> int \<times> int \<times> int" where
  "civil_from_days z0 =
     (let z = z0 + 719468;
          era = z div 146097;
          doe = z - era * 146097;
          yoe = (doe - doe div 1460 + doe div 36524 - doe div 146096) div 365;
          doy = doe - (365 * yoe + yoe div 4 - yoe div 100);
          mp = (5 * doy + 2) div 153;
          d = doy - (153 * mp + 2) div 5 + 1;
          m = (if mp < 10 then mp + 3 else mp - 9);
          y = yoe + era * 400
      in (if m \<le> 2 then y + 1 else y, m, d))"

definition pad :: "nat \<Rightarrow> int \<Rightarrow> string" where
  "pad w n = (let s = show_nat (nat n) in replicate (w - length s) CHR ''0'' @ s)"

text \<open>
  \<^verbatim>\<open>Date.prototype.toISOString\<close> on a valid time value: the UTC fields as
  \<^verbatim>\<open>YYYY-MM-DDTHH:mm:ss.sssZ\<close>, the year with a sign and six digits outside 0..9999.
\<close>

definition toISOString :: "int \<Rightarrow> string" where
  "toISOString tv =
     (let (y, m, d) = civil_from_days (tv div 86400000);
          r = tv mod 86400000;
          year = (if 0 \<le> y \<and> y \<le> 9999 then pad 4 y
                  else (if y < 0 then ''-'' else ''+'') @ pad 6 (abs y))
      in year @ ''-'' @ pad 2 m @ ''-'' @ pad 2 d @ ''T'' @ pad 2 (r div 3600000) @ '':''
         @ pad 2 (r div 60000 mod 60) @ '':'' @ pad 2 (r div 1000 mod 60) @ ''.''
         @ pad 3 (r mod 1000) @ ''Z'')"

text \<open>
  The wall clock (year, month, day, hour, minute) that a time value shows in a time zone
  \<open>offset\<close> minutes east of UTC.
\<close>

definition wall_clock :: "int \<Rightarrow> int \<Rightarrow> int \<times> int \<times> int \<times> int \<times> int" where
  "wall_clock offset tv =
     (let t = tv + offset * 60000;
          (y, m, d) = civil_from_days (t div 86400000);
          r = t mod 86400000
      in (y, m, d, r div 3600000, r div 60000 mod 60))"

text \<open>Asia/Kolkata is UTC+05:30 all year.\<close>

definition Asia_Kolkata :: int where
  "Asia_Kolkata = 330"

text \<open>
  \<^verbatim>\<open>Date.parse\<close> is a parameter of the handlers' model (\<open>dateParse\<close> below). \<open>Date_parse\<close>
  is the instance used for concrete runs: it reads the ECMAScript date-time string format with
  a four-digit year (\<^verbatim>\<open>YYYY[-MM[-DD]][THH:mm[:ss[.sss]][Z|+HH:mm|-HH:mm]]\<close>), takes a date-time
  without offset as local time (\<open>localTZA\<close> minutes east of UTC) and a date alone as UTC, and
  gives NaN for a field out of bounds, as the standard requires. For a string outside the
  format the standard leaves the result to the engine; the instance gives NaN, also where an
  engine reads more (a fraction of one or two digits, an offset without a colon, a lower-case
  \<^verbatim>\<open>z\<close>, a year with a sign and six digits). The local zone is one fixed offset, so a zone
  whose offset changed over the years is right for the dates of one offset only.
\<close>

definition num :: "string \<Rightarrow> int option" where
  "num s = (if s \<noteq> [] \<and> (\<forall>c \<in> set s. in_range CHR ''0'' CHR ''9'' c)
            then Some (foldl (\<lambda>a c. 10 * a + (int (of_char c) - 48)) 0 s) else None)"

definition parse_date :: "string \<Rightarrow> (int \<times> int \<times> int) option" where
  "parse_date s =
     (if length s = 4 then
        (case num s of Some y \<Rightarrow> Some (y, 1, 1) | None \<Rightarrow> None)
      else if length s = 7 \<and> s ! 4 = CHR ''-'' then
        (case (num (take 4 s), num (drop 5 s)) of
           (Some y, Some m) \<Rightarrow> if 1 \<le> m \<and> m \<le> 12 then Some (y, m, 1) else None
         | _ \<Rightarrow> None)
      else if length s = 10 \<and> s ! 4 = CHR ''-'' \<and> s ! 7 = CHR ''-'' then
        (case (num (take 4 s), num (take 2 (drop 5 s)), num (drop 8 s)) of
           (Some y, Some m, Some d) \<Rightarrow>
             if 1 \<le> m \<and> m \<le> 12 \<and> 1 \<le> d \<and> d \<le> 31 then Some (y, m, d) else None
         | _ \<Rightarrow> None)
      else None)"

definition parse_hm :: "string \<Rightarrow> (int \<times> int) option" where
  "parse_hm s =
     (if length s = 5 \<and> s ! 2 = CHR '':'' then
        (case (num (take 2 s), num (drop 3 s)) of
           (Some h, Some m) \<Rightarrow> if h \<le> 24 \<and> m \<le> 59 then Some (h, m) else None
         | _ \<Rightarrow> None)
      else None)"

definition parse_time :: "string \<Rightarrow> int option" where
  "parse_time s =
     (case parse_hm (take 5 s) of
        None \<Rightarrow> None
      | Some (h, m) \<Rightarrow>
          (let rest = drop 5 s;
               sec = (if rest = [] then Some 0
                      else if length rest = 3 \<and> rest ! 0 = CHR '':'' then
                        (case num (drop 1 rest) of
                           Some x \<Rightarrow> if x \<le> 59 then Some (x * 1000) else None
                         | None \<Rightarrow> None)
                      else if length rest = 7 \<and> rest ! 0 = CHR '':'' \<and> rest ! 3 = CHR ''.'' then
                        (case (num (take 2 (drop 1 rest)), num (drop 4 rest)) of
                           (Some x, Some f) \<Rightarrow> if x \<le> 59 then Some (x * 1000 + f) else None
                         | _ \<Rightarrow> None)
                      else None)
           in case sec of
                None \<Rightarrow> None
              | Some ms \<Rightarrow>
                  if h = 24 \<and> (m \<noteq> 0 \<or> ms \<noteq> 0) then None
                  else Some (h * 3600000 + m * 60000 + ms)))"

definition split_zone :: "string \<Rightarrow> (string \<times> int option) option" where
  "split_zone s =
     (let n = length s in
      if s \<noteq> [] \<and> last s = CHR ''Z'' then Some (butlast s, Some 0)
      else if 6 \<le> n \<and> (s ! (n - 6) = CHR ''+'' \<or> s ! (n - 6) = CHR ''-'') then
        (case parse_hm (drop (n - 5) s) of
           None \<Rightarrow> None
         | Some (h, m) \<Rightarrow>
             if h \<le> 23 then
               Some (take (n - 6) s,
                     Some ((if s ! (n - 6) = CHR ''-'' then -1 else 1) * (h * 60 + m)))
             else None)
      else Some (s, None))"

definition TimeClip :: "int \<Rightarrow> int option" where
  "TimeClip tv = (if abs tv \<le> 8640000000000000 then Some tv else None)"

definition Date_parse :: "int \<Rightarrow> string \<Rightarrow> int option" where
  "Date_parse localTZA s =
     (let d = takeWhile (\<lambda>c. c \<noteq> CHR ''T'') s;
          r = dropWhile (\<lambda>c. c \<noteq> CHR ''T'') s
      in case parse_date d of
           None \<Rightarrow> None
         | Some (y, m, dd) \<Rightarrow>
             if r = [] then TimeClip (days_from_civil y m dd * 86400000)
             else
               (case split_zone (tl r) of
                  None \<Rightarrow> None
                | Some (t, z) \<Rightarrow>
                    (case parse_time t of
                       None \<Rightarrow> None
                     | Some ms \<Rightarrow>
                         TimeClip (days_from_civil y m dd * 86400000 + ms
                                   - (case z of None \<Rightarrow> localTZA | Some off \<Rightarrow> off) * 60000))))"

section \<open>Errors, documents, events and effects\<close>

text \<open>
  A thrown error: its \<^verbatim>\<open>code\<close> when that is a number (\<open>None\<close> when it is missing or not a
  number, so never \<^verbatim>\<open>=== 409\<close>) and its \<^verbatim>\<open>message\<close>.
\<close>

record js_error =
  err_code :: "int option"
  err_message :: string

definition RangeError :: js_error where
  "RangeError = \<lparr>err_code = None, err_message = ''Invalid time value''\<rparr>"

definition TypeError :: js_error where
  "TypeError = \<lparr>err_code = None,
                 err_message = ''Cannot read properties of null (reading 'id')''\<rparr>"

text \<open>\<^verbatim>\<open>new Date(s).toISOString()\<close> throws a RangeError on an invalid Date.\<close>

definition new_Date_toISOString :: "(string \<Rightarrow> int option) \<Rightarrow> string \<Rightarrow> js_error + string" where
  "new_Date_toISOString parse s =
     (case parse s of None \<Rightarrow> Inl RangeError | Some tv \<Rightarrow> Inr (toISOString tv))"

record credential =
  email :: string
  access_token :: string
  refresh_token :: "string option"
  expiry_date :: int

record integrations =
  googleCalendar :: "credential option"

record tasks_data =
  tasks_list :: "task list option"

text \<open>
  The outcome of \<^verbatim>\<open>await db.doc(path).get()\<close>: the promise rejects, or it gives a snapshot
  that holds the document's data when the document exists.
\<close>

datatype 'a get_result = GetFailed js_error | Snapshot "'a option"

record time_spec =
  dateTime :: string
  timeZone :: string

record event =
  ev_summary :: string
  ev_description :: string
  ev_start :: time_spec
  ev_end :: time_spec
  ev_id :: string

text \<open>The outcome of \<^verbatim>\<open>await calendar.events.insert(...)\<close>.\<close>

datatype insert_result = Inserted | InsertRejected js_error

text \<open>
  What a handler does to the outside, in the order it does it: a document read (its path), an
  insert request (calendar id and resource), a \<^verbatim>\<open>console.error\<close> or \<^verbatim>\<open>console.log\<close> line,
  and a \<^verbatim>\<open>fetch\<close> that posts \<^verbatim>\<open>{uid: uid}\<close> to a URL.
\<close>

datatype effect =
    DocGet string
  | EventsInsert string event
  | ConsoleError string string
  | ConsoleLog string
  | Fetch string string

record response =
  status :: nat
  body :: string

text \<open>
  The collaborators of the sync handler: the runtime's \<^verbatim>\<open>Date.parse\<close>, the two document
  reads by user id, and the calendar provider, a state machine over its own state \<open>'c\<close>.
  The handler puts the user's tokens into the OAuth client that the calendar API uses
  (\<^verbatim>\<open>setCredentials\<close>), so the tokens are an argument of the insert.
\<close>

record 'c runtime =
  dateParse :: "string \<Rightarrow> int option"
  integrations_get :: "string \<Rightarrow> integrations get_result"
  tasks_get :: "string \<Rightarrow> tasks_data get_result"
  events_insert :: "credential \<Rightarrow> 'c \<Rightarrow> string \<Rightarrow> event \<Rightarrow> insert_result \<times> 'c"

section \<open>The handler of /api/sync-calendar\<close>

text \<open>The event object built in the loop body (source lines 251 to 265).\<close>

definition event_of_task :: "(string \<Rightarrow> int option) \<Rightarrow> task \<Rightarrow> js_error + event" where
  "event_of_task parse task =
     (case new_Date_toISOString parse (dueDate task @ ''T'' @ template (startTime task)) of
        Inl err \<Rightarrow> Inl err
      | Inr s \<Rightarrow>
          (case new_Date_toISOString parse (dueDate task @ ''T'' @ template (endTime task)) of
             Inl err \<Rightarrow> Inl err
           | Inr e \<Rightarrow>
               Inr \<lparr>ev_summary = t_text task,
                    ev_description =
                      ''Synced from Momentum: '' @ or_default (category task) ''Normal'' @ '' Task'',
                    ev_start = \<lparr>dateTime = s, timeZone = ''Asia/Kolkata''\<rparr>,
                    ev_end = \<lparr>dateTime = e, timeZone = ''Asia/Kolkata''\<rparr>,
                    ev_id = eventId task\<rparr>))"

text \<open>
  The loop over \<open>tasksToSync\<close>. Its state is the counter \<open>syncedCount\<close>, the provider's state
  and the effects so far. It ends with \<open>None\<close> after the last task, or with the error thrown
  outside the inner \<^verbatim>\<open>try\<close>, which leaves the loop.
\<close>

fun sync_loop :: "'c runtime \<Rightarrow> credential \<Rightarrow> task list \<Rightarrow> nat \<times> 'c \<times> effect list
                    \<Rightarrow> js_error option \<times> nat \<times> 'c \<times> effect list" where
  "sync_loop rt tokens [] st = (None, st)"
| "sync_loop rt tokens (task # rest) (syncedCount, cal, trace) =
     (case event_of_task (dateParse rt) task of
        Inl err \<Rightarrow> (Some err, syncedCount, cal, trace)
      | Inr event \<Rightarrow>
          (case events_insert rt tokens cal ''primary'' event of
             (Inserted, cal') \<Rightarrow>
               sync_loop rt tokens rest
                 (syncedCount + 1, cal', trace @ [EventsInsert ''primary'' event])
           | (InsertRejected e, cal') \<Rightarrow>
               if err_code e = Some 409 then
                 sync_loop rt tokens rest
                   (syncedCount, cal', trace @ [EventsInsert ''primary'' event])
               else
                 sync_loop rt tokens rest
                   (syncedCount, cal',
                    trace @ [EventsInsert ''primary'' event,
                             ConsoleError (''Error syncing task '' @ t_id task @ '':'')
                               (err_message e)])))"

text \<open>The outer \<^verbatim>\<open>catch\<close>.\<close>

definition sync_failed :: "string \<Rightarrow> js_error \<Rightarrow> 'c \<Rightarrow> effect list \<Rightarrow> response \<times> 'c \<times> effect list" where
  "sync_failed uid error cal trace =
     (\<lparr>status = 500, body = ''Sync failed.''\<rparr>, cal,
      trace @ [ConsoleError (''Sync failed for '' @ uid @ '':'') (err_message error)])"

definition integrations_path :: "string \<Rightarrow> string" where
  "integrations_path uid = ''users/'' @ uid @ ''/settings/integrations''"

definition tasks_path :: "string \<Rightarrow> string" where
  "tasks_path uid = ''users/'' @ uid @ ''/data/tasks''"

text \<open>
  The handler: the request body's \<^verbatim>\<open>uid\<close> field and the provider's state go in; the response,
  the provider's new state and the effects come out.
\<close>

definition sync_calendar :: "'c runtime \<Rightarrow> 'c \<Rightarrow> string option \<Rightarrow> response \<times> 'c \<times> effect list" where
  "sync_calendar rt cal uid_field =
     (if \<not> truthy uid_field then (\<lparr>status = 400, body = ''No user ID provided.''\<rparr>, cal, [])
      else
        let uid = template uid_field in
        case integrations_get rt uid of
          GetFailed error \<Rightarrow> sync_failed uid error cal [DocGet (integrations_path uid)]
        | Snapshot None \<Rightarrow>
            (\<lparr>status = 404, body = ''User has not connected Google Calendar.''\<rparr>, cal,
             [DocGet (integrations_path uid)])
        | Snapshot (Some tokenDoc) \<Rightarrow>
            (case googleCalendar tokenDoc of
               None \<Rightarrow>
                 (\<lparr>status = 404, body = ''User has not connected Google Calendar.''\<rparr>, cal,
                  [DocGet (integrations_path uid)])
             | Some tokens \<Rightarrow>
                 (case tasks_get rt uid of
                    GetFailed error \<Rightarrow>
                      sync_failed uid error cal
                        [DocGet (integrations_path uid), DocGet (tasks_path uid)]
                  | Snapshot None \<Rightarrow>
                      (\<lparr>status = 200, body = ''No tasks to sync.''\<rparr>, cal,
                       [DocGet (integrations_path uid), DocGet (tasks_path uid)])
                  | Snapshot (Some tasksDoc) \<Rightarrow>
                      (let allTasks = (case tasks_list tasksDoc of None \<Rightarrow> [] | Some l \<Rightarrow> l)
                       in case sync_loop rt tokens (tasksToSync allTasks)
                                 (0, cal, [DocGet (integrations_path uid), DocGet (tasks_path uid)]) of
                            (Some error, syncedCount, cal', trace) \<Rightarrow>
                              sync_failed uid error cal' trace
                          | (None, syncedCount, cal', trace) \<Rightarrow>
                              (\<lparr>status = 200,
                                body = ''Sync complete for '' @ uid @ ''. '' @ show_nat syncedCount
                                       @ '' new events created.''\<rparr>,
                               cal', trace)))))"

text \<open>The parts of a trace.\<close>

definition inserts :: "effect list \<Rightarrow> event list" where
  "inserts trace = concat (map (\<lambda>x. case x of EventsInsert c ev \<Rightarrow> [ev] | _ \<Rightarrow> []) trace)"

definition errors_logged :: "effect list \<Rightarrow> (string \<times> string) list" where
  "errors_logged trace = concat (map (\<lambda>x. case x of ConsoleError a b \<Rightarrow> [(a, b)] | _ \<Rightarrow> []) trace)"

definition docs_read :: "effect list \<Rightarrow> string list" where
  "docs_read trace = concat (map (\<lambda>x. case x of DocGet p \<Rightarrow> [p] | _ \<Rightarrow> []) trace)"

text \<open>
  What the provider answers to a sequence of insert requests made one after the other from
  the state \<open>cal\<close>.
\<close>

fun insert_results :: "'c runtime \<Rightarrow> credential \<Rightarrow> 'c \<Rightarrow> event list \<Rightarrow> insert_result list" where
  "insert_results rt tokens cal [] = []"
| "insert_results rt tokens cal (ev # evs) =
     (case events_insert rt tokens cal ''primary'' ev of
        (r, cal') \<Rightarrow> r # insert_results rt tokens cal' evs)"

text \<open>The events of the tasks whose date and times parse.\<close>

definition mapped_events :: "(string \<Rightarrow> int option) \<Rightarrow> task list \<Rightarrow> event list" where
  "mapped_events parse ts =
     concat (map (\<lambda>t. case event_of_task parse t of Inl err \<Rightarrow> [] | Inr ev \<Rightarrow> [ev]) ts)"

definition parses :: "(string \<Rightarrow> int option) \<Rightarrow> task \<Rightarrow> bool" where
  "parses parse t =
     (parse (dueDate t @ ''T'' @ template (startTime t)) \<noteq> None \<and>
      parse (dueDate t @ ''T'' @ template (endTime t)) \<noteq> None)"

text \<open>An insert answered with a conflict.\<close>

definition conflict :: "insert_result \<Rightarrow> bool" where
  "conflict r = (case r of Inserted \<Rightarrow> False | InsertRejected e \<Rightarrow> err_code e = Some 409)"

text \<open>
  The eligible tasks that the loop reaches: those before the first one whose date and times
  do not parse.
\<close>

definition attempted :: "(string \<Rightarrow> int option) \<Rightarrow> task list \<Rightarrow> task list" where
  "attempted parse ts = takeWhile (parses parse) ts"

text \<open>The log line of the inner \<^verbatim>\<open>catch\<close> for a task and the answer to its insert.\<close>

definition failure_lines :: "task \<times> insert_result \<Rightarrow> (string \<times> string) list" where
  "failure_lines x =
     (case snd x of
        Inserted \<Rightarrow> []
      | InsertRejected e \<Rightarrow>
          if err_code e = Some 409 then []
          else [(''Error syncing task '' @ t_id (fst x) @ '':'', err_message e)])"

section \<open>The handler of /api/sync-all-users\<close>

record cron_env =
  CRON_SECRET :: "string option"
  VERCEL_URL :: "string option"

text \<open>
  The outcome of the collection-group query: the promise rejects, or it gives the references
  of the matching documents, each a path of segments such as
  \<^verbatim>\<open>users, u1, settings, integrations\<close>.
\<close>

datatype query_result = QueryFailed js_error | QuerySnapshot "string list list"

text \<open>
  \<^verbatim>\<open>doc.ref.parent.parent.id\<close>: the parent of a document is its collection, the parent of a
  collection is the document that holds it, or \<^verbatim>\<open>null\<close> for a root collection, and reading
  \<^verbatim>\<open>id\<close> of \<^verbatim>\<open>null\<close> throws.
\<close>

definition ref_parent_parent_id :: "string list \<Rightarrow> js_error + string" where
  "ref_parent_parent_id path =
     (let collection = butlast path; owner = butlast collection
      in if owner = [] then Inl TypeError else Inr (last owner))"

text \<open>\<^verbatim>\<open>Array.prototype.map\<close> with a callback that may throw: the first throw ends it.\<close>

fun Array_map :: "('a \<Rightarrow> js_error + 'b) \<Rightarrow> 'a list \<Rightarrow> js_error + 'b list" where
  "Array_map f [] = Inr []"
| "Array_map f (x # xs) =
     (case f x of
        Inl err \<Rightarrow> Inl err
      | Inr y \<Rightarrow> (case Array_map f xs of Inl err \<Rightarrow> Inl err | Inr ys \<Rightarrow> Inr (y # ys)))"

text \<open>
  \<^verbatim>\<open>[...new Set(xs)]\<close>: the constructor adds the elements in order, adding one that is in the
  set already changes nothing, and the spread lists the set in insertion order.
\<close>

fun Set_add_all :: "'a list \<Rightarrow> 'a list \<Rightarrow> 'a list" where
  "Set_add_all [] s = s"
| "Set_add_all (x # xs) s = Set_add_all xs (if x \<in> set s then s else s @ [x])"

definition spread_new_Set :: "'a list \<Rightarrow> 'a list" where
  "spread_new_Set xs = Set_add_all xs []"

definition cron_failed :: "js_error \<Rightarrow> response \<times> effect list" where
  "cron_failed error =
     (\<lparr>status = 500, body = ''Cron job failed''\<rparr>,
      [ConsoleError ''Cron job failed:'' (err_message error)])"

text \<open>
  The handler: the environment variables, the outcome of the discovery query and the
  request's \<^verbatim>\<open>authorization\<close> header go in; the response and the effects come out. The
  promises of the \<^verbatim>\<open>fetch\<close> calls are dropped by the source, so their outcomes are no input.
\<close>

definition sync_all_users :: "cron_env \<Rightarrow> query_result \<Rightarrow> string option \<Rightarrow> response \<times> effect list" where
  "sync_all_users env discovery authorization =
     (if authorization \<noteq> Some (''Bearer '' @ template (CRON_SECRET env)) then
        (\<lparr>status = 401, body = ''Unauthorized''\<rparr>, [])
      else
        case discovery of
          QueryFailed error \<Rightarrow> cron_failed error
        | QuerySnapshot docs \<Rightarrow>
            if docs = [] then (\<lparr>status = 200, body = ''No users to sync.''\<rparr>, [])
            else
              (case Array_map ref_parent_parent_id docs of
                 Inl error \<Rightarrow> cron_failed error
               | Inr userIds \<Rightarrow>
                   (let uniqueUserIds = spread_new_Set userIds
                    in (\<lparr>status = 200,
                         body = ''Sync triggered for '' @ show_nat (length uniqueUserIds)
                                @ '' users.''\<rparr>,
                        ConsoleLog (''CRON: Found '' @ show_nat (length uniqueUserIds)
                                    @ '' users to sync.'')
                        # map (Fetch (template (VERCEL_URL env) @ ''/api/sync-calendar''))
                            uniqueUserIds))))"

text \<open>The user ids of the sync triggers in a trace, in the order they were issued.\<close>

definition triggered :: "effect list \<Rightarrow> string list" where
  "triggered trace = concat (map (\<lambda>x. case x of Fetch url uid \<Rightarrow> [uid] | _ \<Rightarrow> []) trace)"

section \<open>Example collaborators\<close>

text \<open>
  Concrete stores and providers on which the handlers are run below. User \<open>u1\<close> has
  connected a calendar and has a task document; no other user has any document.
\<close>

definition example_tokens :: credential where
  "example_tokens = \<lparr>email = ''u1@example.com'', access_token = ''ya29.a0'',
                      refresh_token = Some ''1//0g'', expiry_date = 1704067200000\<rparr>"

definition example_task :: "string \<Rightarrow> string \<Rightarrow> task" where
  "example_task i due = \<lparr>t_id = i, t_text = ''Write report'', dueDate = due,
                          startTime = Some ''09:00'', endTime = Some ''10:00'',
                          category = None, completed = False\<rparr>"

text \<open>
  A calendar that holds the identifiers of its events: an insert with a new identifier
  succeeds, one with a known identifier is rejected with code 409.
\<close>

definition keeping_insert :: "credential \<Rightarrow> string list \<Rightarrow> string \<Rightarrow> event \<Rightarrow> insert_result \<times> string list" where
  "keeping_insert tokens cal calendarId ev =
     (if ev_id ev \<in> set cal then
        (InsertRejected \<lparr>err_code = Some 409,
                          err_message = ''The requested identifier already exists.''\<rparr>, cal)
      else (Inserted, cal @ [ev_id ev]))"

text \<open>A provider that rejects every insert with code 500.\<close>

definition failing_insert :: "credential \<Rightarrow> string list \<Rightarrow> string \<Rightarrow> event \<Rightarrow> insert_result \<times> string list" where
  "failing_insert tokens cal calendarId ev =
     (InsertRejected \<lparr>err_code = Some 500, err_message = ''Backend Error''\<rparr>, cal)"

text \<open>
  A provider that rejects the event of task \<open>t1\<close> with code 500 and keeps every other event
  as the calendar above does.
\<close>

definition flaky_insert :: "credential \<Rightarrow> string list \<Rightarrow> string \<Rightarrow> event \<Rightarrow> insert_result \<times> string list" where
  "flaky_insert tokens cal calendarId ev =
     (if ev_id ev = ''momentumt1'' then
        (InsertRejected \<lparr>err_code = Some 500, err_message = ''Backend Error''\<rparr>, cal)
      else keeping_insert tokens cal calendarId ev)"

text \<open>
  The runtime of a server whose local time is \<open>tz\<close> minutes east of UTC, with the task
  document \<open>doc\<close> for user \<open>u1\<close> and the provider \<open>ins\<close>.
\<close>

definition example_runtime :: "int \<Rightarrow> tasks_data option
    \<Rightarrow> (credential \<Rightarrow> string list \<Rightarrow> string \<Rightarrow> event \<Rightarrow> insert_result \<times> string list)
    \<Rightarrow> string list runtime" where
  "example_runtime tz doc ins =
     \<lparr>dateParse = Date_parse tz,
      integrations_get = (\<lambda>uid. if uid = ''u1''
                                then Snapshot (Some \<lparr>googleCalendar = Some example_tokens\<rparr>)
                                else Snapshot None),
      tasks_get = (\<lambda>uid. if uid = ''u1'' then Snapshot doc else Snapshot None),
      events_insert = ins\<rparr>"

text \<open>
  The wall clock that the start and the end of an event show in a time zone. The
  \<^verbatim>\<open>dateTime\<close> strings written by \<open>toISOString\<close> end in \<^verbatim>\<open>Z\<close>: they carry their own offset,
  which fixes the instant whatever the \<^verbatim>\<open>timeZone\<close> field says.
\<close>

definition start_in_zone :: "int \<Rightarrow> event \<Rightarrow> (int \<times> int \<times> int \<times> int \<times> int) option" where
  "start_in_zone offset ev = map_option (wall_clock offset) (Date_parse 0 (dateTime (ev_start ev)))"

definition end_in_zone :: "int \<Rightarrow> event \<Rightarrow> (int \<times> int \<times> int \<times> int \<times> int) option" where
  "end_in_zone offset ev = map_option (wall_clock offset) (Date_parse 0 (dateTime (ev_end ev)))"

text \<open>The runs of the sync handler that are evaluated below.\<close>

definition example_event :: "string \<Rightarrow> string \<Rightarrow> string \<Rightarrow> event" where
  "example_event i s e =
     \<lparr>ev_summary = ''Write report'', ev_description = ''Synced from Momentum: Normal Task'',
      ev_start = \<lparr>dateTime = s, timeZone = ''Asia/Kolkata''\<rparr>,
      ev_end = \<lparr>dateTime = e, timeZone = ''Asia/Kolkata''\<rparr>,
      ev_id = i\<rparr>"

definition one_task :: tasks_data where
  "one_task = \<lparr>tasks_list = Some [example_task ''t1'' ''2024-01-01'']\<rparr>"

definition two_tasks :: tasks_data where
  "two_tasks = \<lparr>tasks_list = Some [example_task ''t1'' ''2024-01-01'',
                                    example_task ''t2'' ''2024-01-01'']\<rparr>"

text \<open>Three eligible tasks, the second with a due date that is no date.\<close>

definition three_tasks :: "task list" where
  "three_tasks = [example_task ''t1'' ''2024-01-01'', example_task ''t2'' ''2024-13-45'',
                  example_task ''t3'' ''2024-01-01'']"

definition three_tasks_run :: "response \<times> string list \<times> effect list" where
  "three_tasks_run =
     sync_calendar (example_runtime 0 (Some \<lparr>tasks_list = Some three_tasks\<rparr>) keeping_insert)
       [] (Some ''u1'')"

text \<open>
  Two tasks where the insert of the first fails with code 500, and the same two tasks when
  the event of the first exists already.
\<close>

definition failed_insert_run :: "response \<times> string list \<times> effect list" where
  "failed_insert_run =
     sync_calendar (example_runtime 0 (Some two_tasks) flaky_insert) [] (Some ''u1'')"

definition conflicting_insert_run :: "response \<times> string list \<times> effect list" where
  "conflicting_insert_run =
     sync_calendar (example_runtime 0 (Some two_tasks) keeping_insert) [''momentumt1'']
       (Some ''u1'')"

text \<open>A first sync of two tasks into an empty calendar, and a second one after it.\<close>

definition first_run :: "response \<times> string list \<times> effect list" where
  "first_run = sync_calendar (example_runtime 0 (Some two_tasks) keeping_insert) [] (Some ''u1'')"

definition second_run :: "response \<times> string list \<times> effect list" where
  "second_run =
     sync_calendar (example_runtime 0 (Some two_tasks) keeping_insert) (fst (snd first_run))
       (Some ''u1'')"

text \<open>
  The one-task scenario on a server whose local time is UTC, and on one whose local time is
  that of Asia/Kolkata.
\<close>

definition utc_server_run :: "response \<times> string list \<times> effect list" where
  "utc_server_run =
     sync_calendar (example_runtime 0 (Some one_task) keeping_insert) [] (Some ''u1'')"

definition kolkata_server_run :: "response \<times> string list \<times> effect list" where
  "kolkata_server_run =
     sync_calendar (example_runtime Asia_Kolkata (Some one_task) keeping_insert) [] (Some ''u1'')"

text \<open>A discovery result in which two documents belong to user \<open>u1\<close>.\<close>

definition example_cron_env :: cron_env where
  "example_cron_env = \<lparr>CRON_SECRET = Some ''s3cr3t'', VERCEL_URL = Some ''https://m.example''\<rparr>"

definition example_docs :: "string list list" where
  "example_docs = [[''users'', ''u1'', ''settings'', ''integrations''],
                   [''users'', ''u2'', ''settings'', ''integrations''],
                   [''users'', ''u1'', ''settings'', ''calendar'']]"

section \<open>Properties of the filter and the identifier\<close>

lemma alnum_chars_class: "(c \<in> set alnum_chars) = (\<not> nonAlnum c)"
  by (cases c) (simp add: alnum_chars_def nonAlnum_def in_range_def)

lemma replace_class_empty: "replace_class m [] s = filter (\<lambda>c. \<not> m c) s"
  by (induction s) simp_all

lemma Array_filter_loop_eq: "Array_filter_loop p xs out = out @ filter p xs"
  by (induction xs arbitrary: out) simp_all

lemma Array_filter_eq: "Array_filter p xs = filter p xs"
  by (simp add: Array_filter_def Array_filter_loop_eq)

lemma truthy_iff: "truthy v = (v \<noteq> None \<and> v \<noteq> Some [])"
  by (cases v) (simp_all add: truthy_def)

lemma tasksToSync_filter: "tasksToSync ts = filter nonempty_eligible ts"
proof -
  have "(\<lambda>task. truthy (startTime task) \<and> truthy (endTime task) \<and> \<not> completed task)
          = nonempty_eligible"
    by (rule ext) (simp add: nonempty_eligible_def truthy_iff)
  then show ?thesis
    by (simp add: tasksToSync_def Array_filter_eq)
qed

text \<open>
  C1. The event identifier of a task is "momentum" followed by the task id with every
  character outside [A-Za-z0-9] removed; the id "abc-123!@#" gives "momentumabc123"; the
  identifier depends on the task id only, so deriving it again from the same id gives the
  same string.
\<close>

theorem eventId_sanitized:
  "eventId t = ''momentum'' @ spec_sanitize (t_id t)
   \<and> eventId (t\<lparr>t_id := ''abc-123!@#''\<rparr>) = ''momentumabc123''
   \<and> (\<forall>t'. t_id t' = t_id t \<longrightarrow> eventId t' = eventId t)"
proof -
  have sanitize: "replace_class nonAlnum [] s = spec_sanitize s" for s
    by (simp add: replace_class_empty spec_sanitize_def alnum_chars_class)
  have "eventId (t\<lparr>t_id := ''abc-123!@#''\<rparr>) = ''momentumabc123''"
    by (simp add: eventId_def nonAlnum_def in_range_def)
  then show ?thesis
    by (simp add: eventId_def sanitize)
qed

theorem eventId_sanitized_witness:
  "eventId \<lparr>t_id = ''a_b c9'', t_text = ''x'', dueDate = ''2024-01-01'', startTime = None,
            endTime = None, category = None, completed = False\<rparr> = ''momentumabc9''
   \<and> eventId \<lparr>t_id = ''a_b c9'', t_text = ''other'', dueDate = '''', startTime = Some ''09:00'',
            endTime = None, category = None, completed = True\<rparr> = ''momentumabc9''"
  using eventId_sanitized
    [of "\<lparr>t_id = ''a_b c9'', t_text = ''x'', dueDate = ''2024-01-01'', startTime = None,
          endTime = None, category = None, completed = False\<rparr>"]
  by (simp add: spec_sanitize_def alnum_chars_def)

text \<open>
  C2 as the specification states it fails: a task whose start time is present but is the empty
  string satisfies the stated predicate and is dropped by the filter.
\<close>

theorem tasksToSync_present_counterexample:
  "spec_eligible \<lparr>t_id = ''t1'', t_text = ''a'', dueDate = ''2024-01-01'', startTime = Some '''',
                  endTime = Some ''10:00'', category = None, completed = False\<rparr>
   \<and> tasksToSync [\<lparr>t_id = ''t1'', t_text = ''a'', dueDate = ''2024-01-01'', startTime = Some '''',
                    endTime = Some ''10:00'', category = None, completed = False\<rparr>] = []"
  by (simp add: spec_eligible_def tasksToSync_def Array_filter_def truthy_def)

text \<open>
  C2, amended. The task filter produces exactly the subsequence of the tasks whose start time
  and end time are present and not the empty string and whose completed flag is false: a task
  is in the output if and only if it is in the input and satisfies that predicate, the output
  is the input with the other tasks deleted (so the relative order is kept), and the empty
  list gives the empty list.
\<close>

theorem tasksToSync_subsequence:
  "tasksToSync ts = filter nonempty_eligible ts
   \<and> (t \<in> set (tasksToSync ts)) = (t \<in> set ts \<and> nonempty_eligible t)
   \<and> subseq (tasksToSync ts) ts
   \<and> tasksToSync [] = []"
proof -
  have eq: "tasksToSync ts = filter nonempty_eligible ts"
    by (rule tasksToSync_filter)
  have mem: "(t \<in> set (tasksToSync ts)) = (t \<in> set ts \<and> nonempty_eligible t)"
    unfolding eq by simp
  have sub: "subseq (tasksToSync ts) ts"
    unfolding eq by (rule subseq_filter_left)
  have nil: "tasksToSync [] = []"
    by (simp add: tasksToSync_def Array_filter_def)
  show ?thesis
    using eq mem sub nil by blast
qed

section \<open>Properties of the sync handler\<close>

lemma show_nat_0: "show_nat 0 = ''0''"
  by code_simp

lemma event_of_task_parses:
  "parses parse t \<Longrightarrow> \<exists>ev. event_of_task parse t = Inr ev \<and> ev_id ev = eventId t"
  by (auto simp: parses_def event_of_task_def new_Date_toISOString_def split: option.splits)

lemma event_of_task_fails:
  "\<not> parses parse t \<Longrightarrow> event_of_task parse t = Inl RangeError"
  by (auto simp: parses_def event_of_task_def new_Date_toISOString_def split: option.splits)

lemma inserts_append: "inserts (a @ b) = inserts a @ inserts b"
  by (simp add: inserts_def)

lemma errors_logged_append: "errors_logged (a @ b) = errors_logged a @ errors_logged b"
  by (simp add: errors_logged_def)

lemma docs_read_append: "docs_read (a @ b) = docs_read a @ docs_read b"
  by (simp add: docs_read_def)

lemma inserts_Cons:
  "inserts [] = []"
  "inserts (DocGet p # tr) = inserts tr"
  "inserts (EventsInsert c ev # tr) = ev # inserts tr"
  "inserts (ConsoleError a b # tr) = inserts tr"
  by (simp_all add: inserts_def)

lemma errors_logged_Cons:
  "errors_logged [] = []"
  "errors_logged (DocGet p # tr) = errors_logged tr"
  "errors_logged (EventsInsert c ev # tr) = errors_logged tr"
  "errors_logged (ConsoleError a b # tr) = (a, b) # errors_logged tr"
  by (simp_all add: errors_logged_def)

lemma docs_read_Cons:
  "docs_read [] = []"
  "docs_read (DocGet p # tr) = p # docs_read tr"
  "docs_read (EventsInsert c ev # tr) = docs_read tr"
  "docs_read (ConsoleError a b # tr) = docs_read tr"
  by (simp_all add: docs_read_def)

lemma sync_loop_append:
  "sync_loop rt tok (xs @ ys) st =
     (case sync_loop rt tok xs st of
        (Some err, st') \<Rightarrow> (Some err, st')
      | (None, st') \<Rightarrow> sync_loop rt tok ys st')"
proof (induction xs arbitrary: st)
  case Nil
  show ?case by simp
next
  case (Cons x xs)
  obtain n cal trace where st: "st = (n, cal, trace)"
    by (cases st) auto
  show ?case
    unfolding st
    by (simp add: Cons.IH split: sum.splits prod.splits insert_result.splits option.splits)
qed

lemma sync_loop_mapped:
  assumes "\<forall>t \<in> set ts. parses (dateParse rt) t"
  shows "\<exists>cal' trace'.
           sync_loop rt tok ts (n, cal, trace) =
             (None,
              n + length (filter (\<lambda>r. r = Inserted)
                    (insert_results rt tok cal (mapped_events (dateParse rt) ts))),
              cal', trace')
           \<and> inserts trace' = inserts trace @ mapped_events (dateParse rt) ts
           \<and> errors_logged trace' =
               errors_logged trace
               @ concat (map failure_lines
                   (zip ts (insert_results rt tok cal (mapped_events (dateParse rt) ts))))
           \<and> docs_read trace' = docs_read trace"
  using assms
proof (induction ts arbitrary: n cal trace)
  case Nil
  show ?case by (simp add: mapped_events_def)
next
  case (Cons t ts)
  from Cons.prems obtain ev where ev: "event_of_task (dateParse rt) t = Inr ev"
    using event_of_task_parses by fastforce
  obtain r cal1 where ins: "events_insert rt tok cal ''primary'' ev = (r, cal1)"
    by (cases "events_insert rt tok cal ''primary'' ev") auto
  have me: "mapped_events (dateParse rt) (t # ts) = ev # mapped_events (dateParse rt) ts"
    by (simp add: mapped_events_def ev)
  have rest: "\<forall>t \<in> set ts. parses (dateParse rt) t"
    using Cons.prems by simp
  show ?case
  proof (cases r)
    case Inserted
    from Cons.IH [OF rest, of "n + 1" cal1 "trace @ [EventsInsert ''primary'' ev]"]
    show ?thesis
      by (auto simp: ev ins me Inserted inserts_def errors_logged_def docs_read_def
                     failure_lines_def)
  next
    case (InsertRejected e)
    show ?thesis
    proof (cases "err_code e = Some 409")
      case True
      from Cons.IH [OF rest, of n cal1 "trace @ [EventsInsert ''primary'' ev]"]
      show ?thesis
        by (auto simp: ev ins me InsertRejected True inserts_def errors_logged_def
                       docs_read_def failure_lines_def)
    next
      case False
      from Cons.IH [OF rest, of n cal1
            "trace @ [EventsInsert ''primary'' ev,
                      ConsoleError (''Error syncing task '' @ t_id t @ '':'') (err_message e)]"]
      show ?thesis
        by (auto simp: ev ins me InsertRejected False inserts_def errors_logged_def
                       docs_read_def failure_lines_def)
    qed
  qed
qed


lemma sync_loop_stops:
  assumes pre: "\<forall>t \<in> set pre. parses (dateParse rt) t"
      and bad: "\<not> parses (dateParse rt) bad"
  shows "\<exists>cal' trace'.
           sync_loop rt tok (pre @ bad # post) (n, cal, trace) =
             (Some RangeError,
              n + length (filter (\<lambda>r. r = Inserted)
                    (insert_results rt tok cal (mapped_events (dateParse rt) pre))),
              cal', trace')
           \<and> inserts trace' = inserts trace @ mapped_events (dateParse rt) pre
           \<and> errors_logged trace' =
               errors_logged trace
               @ concat (map failure_lines
                   (zip pre (insert_results rt tok cal (mapped_events (dateParse rt) pre))))
           \<and> docs_read trace' = docs_read trace"
proof -
  from sync_loop_mapped [OF pre, of tok n cal trace]
  obtain cal' trace' where
    run: "sync_loop rt tok pre (n, cal, trace) =
            (None,
             n + length (filter (\<lambda>r. r = Inserted)
                   (insert_results rt tok cal (mapped_events (dateParse rt) pre))),
             cal', trace')"
    and tr: "inserts trace' = inserts trace @ mapped_events (dateParse rt) pre"
      "errors_logged trace' =
         errors_logged trace
         @ concat (map failure_lines
             (zip pre (insert_results rt tok cal (mapped_events (dateParse rt) pre))))"
      "docs_read trace' = docs_read trace"
    by blast
  have "sync_loop rt tok (pre @ bad # post) (n, cal, trace) =
          (Some RangeError,
           n + length (filter (\<lambda>r. r = Inserted)
                 (insert_results rt tok cal (mapped_events (dateParse rt) pre))),
           cal', trace')"
    by (simp add: sync_loop_append run event_of_task_fails [OF bad])
  with tr show ?thesis by blast
qed

text \<open>
  The loop on any list of tasks: it reaches the tasks before the first one that does not
  parse, makes one insert attempt for each of them, counts the inserts that succeeded and
  logs the ones that failed for another reason than a conflict.
\<close>

lemma sync_loop_run:
  "\<exists>cal' trace'.
     sync_loop rt tok ts (n, cal, trace) =
       (if \<forall>t \<in> set ts. parses (dateParse rt) t then None else Some RangeError,
        n + length (filter (\<lambda>r. r = Inserted)
              (insert_results rt tok cal
                (mapped_events (dateParse rt) (attempted (dateParse rt) ts)))),
        cal', trace')
     \<and> inserts trace' = inserts trace @ mapped_events (dateParse rt) (attempted (dateParse rt) ts)
     \<and> errors_logged trace' =
         errors_logged trace
         @ concat (map failure_lines
             (zip (attempted (dateParse rt) ts)
               (insert_results rt tok cal
                 (mapped_events (dateParse rt) (attempted (dateParse rt) ts)))))
     \<and> docs_read trace' = docs_read trace"
proof (cases "\<forall>t \<in> set ts. parses (dateParse rt) t")
  case True
  then have "attempted (dateParse rt) ts = ts"
    by (simp add: attempted_def)
  with sync_loop_mapped [OF True, of tok n cal trace] True show ?thesis
    by simp
next
  case False
  let ?pre = "attempted (dateParse rt) ts"
  have "dropWhile (parses (dateParse rt)) ts \<noteq> []"
    using False by (simp add: dropWhile_eq_Nil_conv)
  then obtain bad post where drop: "dropWhile (parses (dateParse rt)) ts = bad # post"
    by (cases "dropWhile (parses (dateParse rt)) ts") auto
  have bad: "\<not> parses (dateParse rt) bad"
    using hd_dropWhile [of "parses (dateParse rt)" ts] drop by simp
  have pre: "\<forall>t \<in> set ?pre. parses (dateParse rt) t"
    by (auto simp: attempted_def dest: set_takeWhileD)
  have split: "ts = ?pre @ bad # post"
    using takeWhile_dropWhile_id [of "parses (dateParse rt)" ts] drop
    by (simp add: attempted_def)
  have r: "(if \<forall>t \<in> set ts. parses (dateParse rt) t then None else Some RangeError)
           = Some RangeError"
    using False by simp
  note st = sync_loop_stops [OF pre bad, of tok post n cal trace, folded split]
  show ?thesis
    unfolding r using st .
qed

lemma sync_calendar_loop:
  assumes "uid \<noteq> []"
      and "integrations_get rt uid = Snapshot (Some tokenDoc)"
      and "googleCalendar tokenDoc = Some tokens"
      and "tasks_get rt uid = Snapshot (Some tasksDoc)"
  shows "sync_calendar rt cal (Some uid) =
           (case sync_loop rt tokens
                   (tasksToSync (case tasks_list tasksDoc of None \<Rightarrow> [] | Some l \<Rightarrow> l))
                   (0, cal, [DocGet (integrations_path uid), DocGet (tasks_path uid)]) of
              (Some error, syncedCount, cal', trace) \<Rightarrow> sync_failed uid error cal' trace
            | (None, syncedCount, cal', trace) \<Rightarrow>
                (\<lparr>status = 200,
                  body = ''Sync complete for '' @ uid @ ''. '' @ show_nat syncedCount
                         @ '' new events created.''\<rparr>,
                 cal', trace))"
  using assms by (simp add: sync_calendar_def truthy_def template_def)

text \<open>
  What the handler does at a task whose due date and times do not parse. The error is thrown
  outside the inner \<^verbatim>\<open>try\<close>, so the sync stops at that task: the eligible tasks before it
  have had their insert attempts, no later task is attempted, one line "Sync failed for uid"
  with the message of the RangeError is logged after the lines of the earlier tasks, and the
  response is 500 "Sync failed.".
\<close>

lemma malformed_task_stops_sync:
  assumes "uid \<noteq> []"
      and "integrations_get rt uid = Snapshot (Some tokenDoc)"
      and "googleCalendar tokenDoc = Some tokens"
      and "tasks_get rt uid = Snapshot (Some tasksDoc)"
      and "tasks_list tasksDoc = Some allTasks"
      and "tasksToSync allTasks = pre @ bad # post"
      and "\<forall>t \<in> set pre. parses (dateParse rt) t"
      and "\<not> parses (dateParse rt) bad"
  shows "fst (sync_calendar rt cal (Some uid)) = \<lparr>status = 500, body = ''Sync failed.''\<rparr>
       \<and> inserts (snd (snd (sync_calendar rt cal (Some uid)))) = mapped_events (dateParse rt) pre
       \<and> errors_logged (snd (snd (sync_calendar rt cal (Some uid)))) =
           concat (map failure_lines
             (zip pre (insert_results rt tokens cal (mapped_events (dateParse rt) pre))))
           @ [(''Sync failed for '' @ uid @ '':'', ''Invalid time value'')]"
proof -
  from sync_loop_stops [OF assms(7) assms(8), of tokens post 0 cal
         "[DocGet (integrations_path uid), DocGet (tasks_path uid)]"]
  obtain n' cal' trace' where
    run: "sync_loop rt tokens (pre @ bad # post)
            (0, cal, [DocGet (integrations_path uid), DocGet (tasks_path uid)])
          = (Some RangeError, n', cal', trace')"
    and ins: "inserts trace' =
                inserts [DocGet (integrations_path uid), DocGet (tasks_path uid)]
                @ mapped_events (dateParse rt) pre"
    and log: "errors_logged trace' =
                errors_logged [DocGet (integrations_path uid), DocGet (tasks_path uid)]
                @ concat (map failure_lines
                    (zip pre (insert_results rt tokens cal (mapped_events (dateParse rt) pre))))"
    by blast
  have res: "sync_calendar rt cal (Some uid) = sync_failed uid RangeError cal' trace'"
    by (simp add: sync_calendar_loop [OF assms(1-4)] assms(5) assms(6) run)
  show ?thesis
    by (simp add: res sync_failed_def ins log inserts_append errors_logged_append
                  inserts_Cons errors_logged_Cons RangeError_def)
qed

lemma length_insert_results: "length (insert_results rt tok cal evs) = length evs"
  by (induction evs arbitrary: cal) (simp_all split: prod.splits)

lemma mapped_events_ids:
  "\<forall>t \<in> set ts. parses parse t \<Longrightarrow> map ev_id (mapped_events parse ts) = map eventId ts"
proof (induction ts)
  case Nil
  show ?case by (simp add: mapped_events_def)
next
  case (Cons t ts)
  then obtain ev where "event_of_task parse t = Inr ev" "ev_id ev = eventId t"
    using event_of_task_parses by fastforce
  with Cons show ?case by (simp add: mapped_events_def)
qed

lemma length_mapped_events:
  "\<forall>t \<in> set ts. parses parse t \<Longrightarrow> length (mapped_events parse ts) = length ts"
  using mapped_events_ids [of ts parse] by (metis length_map)

lemma attempted_parses: "\<forall>t \<in> set (attempted parse ts). parses parse t"
  by (auto simp: attempted_def dest: set_takeWhileD)

lemma attempted_all: "\<forall>t \<in> set ts. parses parse t \<Longrightarrow> attempted parse ts = ts"
  by (simp add: attempted_def)

lemma sync_calendar_run:
  assumes "uid \<noteq> []"
      and "integrations_get rt uid = Snapshot (Some tokenDoc)"
      and "googleCalendar tokenDoc = Some tokens"
      and "tasks_get rt uid = Snapshot (Some tasksDoc)"
      and "tasks_list tasksDoc = Some allTasks"
      and "att = attempted (dateParse rt) (tasksToSync allTasks)"
      and "rs = insert_results rt tokens cal (mapped_events (dateParse rt) att)"
  shows "fst (sync_calendar rt cal (Some uid)) =
           (if \<forall>t \<in> set (tasksToSync allTasks). parses (dateParse rt) t
            then \<lparr>status = 200,
                  body = ''Sync complete for '' @ uid @ ''. ''
                         @ show_nat (length (filter (\<lambda>r. r = Inserted) rs))
                         @ '' new events created.''\<rparr>
            else \<lparr>status = 500, body = ''Sync failed.''\<rparr>)"
    and "inserts (snd (snd (sync_calendar rt cal (Some uid)))) = mapped_events (dateParse rt) att"
    and "errors_logged (snd (snd (sync_calendar rt cal (Some uid)))) =
           concat (map failure_lines (zip att rs))
           @ (if \<forall>t \<in> set (tasksToSync allTasks). parses (dateParse rt) t then []
              else [(''Sync failed for '' @ uid @ '':'', ''Invalid time value'')])"
proof -
  let ?all = "\<forall>t \<in> set (tasksToSync allTasks). parses (dateParse rt) t"
  let ?start = "[DocGet (integrations_path uid), DocGet (tasks_path uid)]"
  from sync_loop_run [of rt tokens "tasksToSync allTasks" 0 cal ?start]
  obtain cal' trace' where
    run: "sync_loop rt tokens (tasksToSync allTasks) (0, cal, ?start)
          = (if ?all then None else Some RangeError,
             0 + length (filter (\<lambda>r. r = Inserted) rs), cal', trace')"
    and ins: "inserts trace' = inserts ?start @ mapped_events (dateParse rt) att"
    and log: "errors_logged trace' =
                errors_logged ?start @ concat (map failure_lines (zip att rs))"
    unfolding assms(6) assms(7) by blast
  have res: "sync_calendar rt cal (Some uid) =
               (if ?all
                then (\<lparr>status = 200,
                       body = ''Sync complete for '' @ uid @ ''. ''
                              @ show_nat (length (filter (\<lambda>r. r = Inserted) rs))
                              @ '' new events created.''\<rparr>, cal', trace')
                else sync_failed uid RangeError cal' trace')"
    by (simp add: sync_calendar_loop [OF assms(1-4)] assms(5) run)
  show "fst (sync_calendar rt cal (Some uid)) =
           (if ?all
            then \<lparr>status = 200,
                  body = ''Sync complete for '' @ uid @ ''. ''
                         @ show_nat (length (filter (\<lambda>r. r = Inserted) rs))
                         @ '' new events created.''\<rparr>
            else \<lparr>status = 500, body = ''Sync failed.''\<rparr>)"
    by (simp add: res sync_failed_def)
  show "inserts (snd (snd (sync_calendar rt cal (Some uid)))) = mapped_events (dateParse rt) att"
    by (simp add: res sync_failed_def ins inserts_Cons inserts_append)
  show "errors_logged (snd (snd (sync_calendar rt cal (Some uid)))) =
           concat (map failure_lines (zip att rs))
           @ (if ?all then []
              else [(''Sync failed for '' @ uid @ '':'', ''Invalid time value'')])"
    by (simp add: res sync_failed_def log errors_logged_Cons errors_logged_append
          RangeError_def)
qed

text \<open>
  C4, amended. In a sync where the date and times of every eligible task parse, an insert
  that fails for a reason other than a conflict (code 409) is written to the error log, as
  one \<^verbatim>\<open>console.error\<close> line that names the task id and gives the error's message, and is
  not part of the response, which carries the number of created events only. Processing
  continues with the next task: every eligible task gets its insert attempt, in the filter's
  order, whatever the answers to the earlier inserts were, the inserts that succeed after a
  failure are counted, and the sync does not abort: it ends with status 200 and
  "Sync complete".
\<close>

theorem insert_failure_logged:
  assumes "uid \<noteq> []"
      and "integrations_get rt uid = Snapshot (Some tokenDoc)"
      and "googleCalendar tokenDoc = Some tokens"
      and "tasks_get rt uid = Snapshot (Some tasksDoc)"
      and "tasks_list tasksDoc = Some allTasks"
      and "\<forall>t \<in> set (tasksToSync allTasks). parses (dateParse rt) t"
      and "rs = insert_results rt tokens cal
                  (mapped_events (dateParse rt) (tasksToSync allTasks))"
  shows "fst (sync_calendar rt cal (Some uid)) =
           \<lparr>status = 200,
            body = ''Sync complete for '' @ uid @ ''. ''
                   @ show_nat (length (filter (\<lambda>r. r = Inserted) rs))
                   @ '' new events created.''\<rparr>
       \<and> map ev_id (inserts (snd (snd (sync_calendar rt cal (Some uid)))))
           = map eventId (tasksToSync allTasks)
       \<and> errors_logged (snd (snd (sync_calendar rt cal (Some uid))))
           = concat (map failure_lines (zip (tasksToSync allTasks) rs))
       \<and> (\<forall>i < length (tasksToSync allTasks). \<forall>e.
             rs ! i = InsertRejected e \<and> err_code e \<noteq> Some 409 \<longrightarrow>
             (''Error syncing task '' @ t_id (tasksToSync allTasks ! i) @ '':'', err_message e)
               \<in> set (errors_logged (snd (snd (sync_calendar rt cal (Some uid))))))"
proof -
  let ?ts = "tasksToSync allTasks"
  have att: "?ts = attempted (dateParse rt) ?ts"
    by (simp add: attempted_all [OF assms(6)])
  have rs: "rs = insert_results rt tokens cal (mapped_events (dateParse rt) ?ts)"
    by (rule assms(7))
  note fin = sync_calendar_run [OF assms(1-5) att rs]
  have len: "length rs = length ?ts"
    by (simp add: assms(7) length_insert_results length_mapped_events [OF assms(6)])
  have res: "fst (sync_calendar rt cal (Some uid)) =
           \<lparr>status = 200,
            body = ''Sync complete for '' @ uid @ ''. ''
                   @ show_nat (length (filter (\<lambda>r. r = Inserted) rs))
                   @ '' new events created.''\<rparr>"
    using assms(6) by (simp add: fin(1))
  have ids: "map ev_id (inserts (snd (snd (sync_calendar rt cal (Some uid))))) = map eventId ?ts"
    by (simp add: fin(2) mapped_events_ids [OF assms(6)])
  have log: "errors_logged (snd (snd (sync_calendar rt cal (Some uid))))
           = concat (map failure_lines (zip ?ts rs))"
    using assms(6) by (simp add: fin(3))
  have logged: "(''Error syncing task '' @ t_id (?ts ! i) @ '':'', err_message e)
          \<in> set (errors_logged (snd (snd (sync_calendar rt cal (Some uid)))))"
    if i: "i < length ?ts"
      and r: "rs ! i = InsertRejected e" "err_code e \<noteq> Some 409" for i e
  proof -
    have "(?ts ! i, rs ! i) \<in> set (zip ?ts rs)"
      using i len by (metis in_set_zip fst_conv snd_conv)
    moreover have "failure_lines (?ts ! i, rs ! i)
        = [(''Error syncing task '' @ t_id (?ts ! i) @ '':'', err_message e)]"
      by (simp add: failure_lines_def r)
    ultimately have "(''Error syncing task '' @ t_id (?ts ! i) @ '':'', err_message e)
        \<in> set (concat (map failure_lines (zip ?ts rs)))"
      by force
    then show ?thesis
      by (simp add: log)
  qed
  show ?thesis
    using res ids log logged by blast
qed

lemma failure_lines_conflict: "conflict (snd x) \<Longrightarrow> failure_lines x = []"
  by (cases "snd x") (simp_all add: conflict_def failure_lines_def)

lemma concat_failure_lines_filter:
  "concat (map failure_lines xs) = concat (map failure_lines (filter (\<lambda>x. \<not> conflict (snd x)) xs))"
  by (induction xs) (simp_all add: failure_lines_conflict)

lemma no_Inserted_if_conflicts:
  "\<forall>r \<in> set rs. conflict r \<Longrightarrow> filter (\<lambda>r. r = Inserted) rs = []"
  by (induction rs) (auto simp: conflict_def)

text \<open>
  C5. In every sync that reaches the loop, with \<open>att\<close> the eligible tasks before the first one
  whose date and times do not parse (all of them when all parse) and \<open>rs\<close> the provider's
  answers, an insert rejected with code 409 is treated as success: every task of \<open>att\<close> has
  exactly one insert attempt, so nothing is retried; the logged errors are those of the
  inserts that were not answered with a conflict (and the line of the sync itself when a task
  does not parse); and when the sync completes, the created count is the number of inserts
  that succeeded, which a conflict is not. Consequently, when every eligible task parses and
  every insert is answered with a conflict (all the user's events exist already), the sync
  reports 0 new events and logs no error.
\<close>

theorem conflict_counts_as_success:
  assumes "uid \<noteq> []"
      and "integrations_get rt uid = Snapshot (Some tokenDoc)"
      and "googleCalendar tokenDoc = Some tokens"
      and "tasks_get rt uid = Snapshot (Some tasksDoc)"
      and "tasks_list tasksDoc = Some allTasks"
      and "att = attempted (dateParse rt) (tasksToSync allTasks)"
      and "rs = insert_results rt tokens cal (mapped_events (dateParse rt) att)"
  shows "map ev_id (inserts (snd (snd (sync_calendar rt cal (Some uid))))) = map eventId att
       \<and> errors_logged (snd (snd (sync_calendar rt cal (Some uid))))
           = concat (map failure_lines (filter (\<lambda>x. \<not> conflict (snd x)) (zip att rs)))
             @ (if \<forall>t \<in> set (tasksToSync allTasks). parses (dateParse rt) t then []
                else [(''Sync failed for '' @ uid @ '':'', ''Invalid time value'')])
       \<and> ((\<forall>t \<in> set (tasksToSync allTasks). parses (dateParse rt) t) \<longrightarrow>
            fst (sync_calendar rt cal (Some uid)) =
              \<lparr>status = 200,
               body = ''Sync complete for '' @ uid @ ''. ''
                      @ show_nat (length (filter (\<lambda>r. r = Inserted) rs))
                      @ '' new events created.''\<rparr>)
       \<and> (\<forall>r \<in> set rs. conflict r \<longrightarrow> r \<noteq> Inserted)
       \<and> ((\<forall>t \<in> set (tasksToSync allTasks). parses (dateParse rt) t)
            \<and> (\<forall>r \<in> set rs. conflict r) \<longrightarrow>
            fst (sync_calendar rt cal (Some uid)) =
              \<lparr>status = 200,
               body = ''Sync complete for '' @ uid @ ''. 0 new events created.''\<rparr>
            \<and> errors_logged (snd (snd (sync_calendar rt cal (Some uid)))) = [])"
proof -
  note fin = sync_calendar_run [OF assms]
  have att: "\<forall>t \<in> set att. parses (dateParse rt) t"
    unfolding assms(6) by (rule attempted_parses)
  have ids: "map ev_id (inserts (snd (snd (sync_calendar rt cal (Some uid))))) = map eventId att"
    by (simp add: fin(2) mapped_events_ids [OF att])
  have log: "errors_logged (snd (snd (sync_calendar rt cal (Some uid))))
           = concat (map failure_lines (filter (\<lambda>x. \<not> conflict (snd x)) (zip att rs)))
             @ (if \<forall>t \<in> set (tasksToSync allTasks). parses (dateParse rt) t then []
                else [(''Sync failed for '' @ uid @ '':'', ''Invalid time value'')])"
    unfolding fin(3) using concat_failure_lines_filter [of "zip att rs"] by simp
  have count: "fst (sync_calendar rt cal (Some uid)) =
              \<lparr>status = 200,
               body = ''Sync complete for '' @ uid @ ''. ''
                      @ show_nat (length (filter (\<lambda>r. r = Inserted) rs))
                      @ '' new events created.''\<rparr>"
    if "\<forall>t \<in> set (tasksToSync allTasks). parses (dateParse rt) t"
    using that by (simp add: fin(1))
  have nc: "\<forall>r \<in> set rs. conflict r \<longrightarrow> r \<noteq> Inserted"
    by (auto simp: conflict_def)
  have none: "filter (\<lambda>x. \<not> conflict (snd x)) (zip att rs) = []"
    if "\<forall>r \<in> set rs. conflict r"
    using that by (auto simp: filter_empty_conv dest: set_zip_rightD)
  have zero: "fst (sync_calendar rt cal (Some uid)) =
              \<lparr>status = 200,
               body = ''Sync complete for '' @ uid @ ''. 0 new events created.''\<rparr>
            \<and> errors_logged (snd (snd (sync_calendar rt cal (Some uid)))) = []"
    if p: "\<forall>t \<in> set (tasksToSync allTasks). parses (dateParse rt) t"
      and c: "\<forall>r \<in> set rs. conflict r"
    using p by (simp add: count [OF p] log none [OF c] no_Inserted_if_conflicts [OF c] show_nat_0)
  show ?thesis
    using ids log count nc zero by blast
qed

lemma paths_differ: "integrations_path uid \<noteq> tasks_path uid"
  by (simp add: integrations_path_def tasks_path_def)

text \<open>
  C6. For a request that carries a user id, when the user's integrations document is absent
  or has no \<^verbatim>\<open>googleCalendar\<close> field, the sync answers 404 "User has not connected Google
  Calendar." after reading that one document: the task document is not read, and the
  outcome is the same whatever the task store holds.
\<close>

theorem no_credential_fails_fast:
  assumes "uid \<noteq> []"
      and "integrations_get rt uid = Snapshot None
           \<or> (\<exists>tokenDoc. integrations_get rt uid = Snapshot (Some tokenDoc)
                \<and> googleCalendar tokenDoc = None)"
  shows "sync_calendar rt cal (Some uid) =
           (\<lparr>status = 404, body = ''User has not connected Google Calendar.''\<rparr>, cal,
            [DocGet (integrations_path uid)])
       \<and> tasks_path uid \<notin> set (docs_read (snd (snd (sync_calendar rt cal (Some uid)))))
       \<and> sync_calendar (rt\<lparr>tasks_get := store\<rparr>) cal (Some uid) = sync_calendar rt cal (Some uid)"
proof -
  have r: "sync_calendar rt' cal (Some uid) =
           (\<lparr>status = 404, body = ''User has not connected Google Calendar.''\<rparr>, cal,
            [DocGet (integrations_path uid)])"
    if "integrations_get rt' = integrations_get rt" for rt' :: "'a runtime"
    using assms that by (auto simp: sync_calendar_def truthy_def template_def)
  have "tasks_path uid \<notin> set (docs_read [DocGet (integrations_path uid)])"
    using paths_differ [of uid] by (simp add: docs_read_Cons)
  then show ?thesis
    by (simp add: r)
qed

text \<open>
  C10. When the user's task document exists but has no \<^verbatim>\<open>list\<close> field, the sync treats the
  task collection as the empty list: it answers 200 with 0 new events created, attempts no
  insert and logs no error.
\<close>

theorem missing_list_is_empty:
  assumes "uid \<noteq> []"
      and "integrations_get rt uid = Snapshot (Some tokenDoc)"
      and "googleCalendar tokenDoc = Some tokens"
      and "tasks_get rt uid = Snapshot (Some tasksDoc)"
      and "tasks_list tasksDoc = None"
  shows "sync_calendar rt cal (Some uid) =
           (\<lparr>status = 200, body = ''Sync complete for '' @ uid @ ''. 0 new events created.''\<rparr>,
            cal, [DocGet (integrations_path uid), DocGet (tasks_path uid)])
       \<and> inserts (snd (snd (sync_calendar rt cal (Some uid)))) = []
       \<and> errors_logged (snd (snd (sync_calendar rt cal (Some uid)))) = []"
proof -
  have "tasksToSync [] = []"
    by (simp add: tasksToSync_filter)
  then show ?thesis
    by (simp add: sync_calendar_loop [OF assms(1-4)] assms(5) show_nat_0 inserts_Cons
          errors_logged_Cons)
qed

section \<open>Properties of the fan-out handler\<close>

lemma Set_add_all_set: "set (Set_add_all xs s) = set s \<union> set xs"
  by (induction xs arbitrary: s) auto

lemma Set_add_all_distinct: "distinct s \<Longrightarrow> distinct (Set_add_all xs s)"
  by (induction xs arbitrary: s) auto

lemma count_list_distinct: "distinct xs \<Longrightarrow> x \<in> set xs \<Longrightarrow> count_list xs x = 1"
  by (induction xs) auto

lemma triggered_fetches: "triggered (ConsoleLog l # map (Fetch url) uids) = uids"
  by (induction uids) (simp_all add: triggered_def)

lemma length_distinct_card: "distinct xs \<Longrightarrow> length xs = card (set xs)"
  by (simp add: distinct_card)

lemma Array_map_owners:
  "Array_map ref_parent_parent_id docs = Inr userIds \<Longrightarrow>
   userIds = map (\<lambda>path. last (butlast (butlast path))) docs"
  by (induction docs arbitrary: userIds)
     (auto simp: ref_parent_parent_id_def Let_def split: sum.splits if_splits)

text \<open>
  C8. When the request is authorized and the discovery query finds documents, the owning user
  id of each document is read from its reference (the document that holds the document's
  collection), and the sync triggers go to the deduplicated ids: no user id is triggered
  twice, the triggered ids are exactly the discovered owners, so each discovered user is
  triggered exactly once, and the response counts the distinct users. In particular, two
  credential documents that both belong to "u1" cause exactly one trigger, for "u1".
\<close>

theorem each_user_triggered_once:
  assumes "authorization = Some (''Bearer '' @ template (CRON_SECRET env))"
      and "docs \<noteq> []"
      and "Array_map ref_parent_parent_id docs = Inr userIds"
  shows "userIds = map (\<lambda>path. last (butlast (butlast path))) docs
       \<and> distinct (triggered (snd (sync_all_users env (QuerySnapshot docs) authorization)))
       \<and> set (triggered (snd (sync_all_users env (QuerySnapshot docs) authorization)))
           = set userIds
       \<and> (\<forall>uid \<in> set userIds.
             count_list (triggered (snd (sync_all_users env (QuerySnapshot docs) authorization)))
               uid = 1)
       \<and> fst (sync_all_users env (QuerySnapshot docs) authorization)
           = \<lparr>status = 200,
              body = ''Sync triggered for '' @ show_nat (card (set userIds)) @ '' users.''\<rparr>
       \<and> triggered (snd (sync_all_users env
             (QuerySnapshot [[''users'', ''u1'', ''settings'', ''integrations''],
                             [''users'', ''u1'', ''settings'', ''calendar'']])
             authorization)) = [''u1'']"
proof -
  have d: "distinct (spread_new_Set userIds)"
    by (simp add: spread_new_Set_def Set_add_all_distinct)
  have s: "set (spread_new_Set userIds) = set userIds"
    by (simp add: spread_new_Set_def Set_add_all_set)
  have t: "triggered (snd (sync_all_users env (QuerySnapshot docs) authorization))
             = spread_new_Set userIds"
    using assms by (simp add: sync_all_users_def triggered_fetches Let_def)
  have r: "fst (sync_all_users env (QuerySnapshot docs) authorization)
           = \<lparr>status = 200,
              body = ''Sync triggered for '' @ show_nat (length (spread_new_Set userIds))
                     @ '' users.''\<rparr>"
    using assms by (simp add: sync_all_users_def Let_def)
  have u: "triggered (snd (sync_all_users env
             (QuerySnapshot [[''users'', ''u1'', ''settings'', ''integrations''],
                             [''users'', ''u1'', ''settings'', ''calendar'']])
             authorization)) = [''u1'']"
    using assms(1)
    by (simp add: sync_all_users_def ref_parent_parent_id_def triggered_def spread_new_Set_def
          Let_def)
  have n: "length (spread_new_Set userIds) = card (set userIds)"
    using length_distinct_card [OF d] by (simp add: s)
  have c: "\<forall>uid \<in> set userIds. count_list (spread_new_Set userIds) uid = 1"
    using count_list_distinct [OF d] by (simp add: s)
  show ?thesis
    unfolding t r u n using d s c Array_map_owners [OF assms(3)] by blast
qed

theorem each_user_triggered_once_witness:
  "triggered (snd (sync_all_users example_cron_env (QuerySnapshot example_docs)
                     (Some ''Bearer s3cr3t''))) = [''u1'', ''u2'']
   \<and> count_list (triggered (snd (sync_all_users example_cron_env (QuerySnapshot example_docs)
                     (Some ''Bearer s3cr3t'')))) ''u1'' = 1
   \<and> fst (sync_all_users example_cron_env (QuerySnapshot example_docs) (Some ''Bearer s3cr3t''))
       = \<lparr>status = 200, body = ''Sync triggered for 2 users.''\<rparr>"
proof -
  have h1: "Some ''Bearer s3cr3t'' = Some (''Bearer '' @ template (CRON_SECRET example_cron_env))"
    by (simp add: example_cron_env_def template_def)
  have h2: "example_docs \<noteq> []"
    by (simp add: example_docs_def)
  have h3: "Array_map ref_parent_parent_id example_docs = Inr [''u1'', ''u2'', ''u1'']"
    by (simp add: example_docs_def ref_parent_parent_id_def)
  have c: "card {''u1'', ''u2'', ''u1''} = 2"
    by (simp add: insert_commute)
  have n: "show_nat 2 = ''2''"
    by code_simp
  have tr: "triggered (snd (sync_all_users example_cron_env (QuerySnapshot example_docs)
                     (Some ''Bearer s3cr3t''))) = [''u1'', ''u2'']"
    using h1 h2
    by (simp add: sync_all_users_def h3 triggered_def spread_new_Set_def Let_def)
  from each_user_triggered_once [OF h1 h2 h3]
  show ?thesis
    by (simp add: tr c n)
qed

section \<open>The handlers on the example collaborators\<close>

lemma Date_parse_examples:
  "Date_parse 0 ''2024-01-01T09:00'' = Some 1704099600000"
  "Date_parse 0 ''2024-01-01T10:00'' = Some 1704103200000"
  "Date_parse 330 ''2024-01-01T09:00'' = Some 1704079800000"
  "Date_parse 330 ''2024-01-01T10:00'' = Some 1704083400000"
  "Date_parse 0 ''2024-13-45T09:00'' = None"
  "Date_parse 0 ''2024-01-01T09:00:00.000Z'' = Some 1704099600000"
  "Date_parse 0 ''2024-01-01T10:00:00.000Z'' = Some 1704103200000"
  "Date_parse 0 ''2024-01-01T03:30:00.000Z'' = Some 1704079800000"
  "Date_parse 0 ''2024-01-01T04:30:00.000Z'' = Some 1704083400000"
  by code_simp+

lemma civil_from_days_example: "civil_from_days 19723 = (2024, 1, 1)"
  by code_simp

lemma pad_examples:
  "pad 2 0 = ''00''" "pad 2 1 = ''01''" "pad 2 9 = ''09''" "pad 2 10 = ''10''"
  "pad 2 3 = ''03''" "pad 2 4 = ''04''" "pad 2 30 = ''30''" "pad 3 0 = ''000''"
  "pad 4 2024 = ''2024''"
  by code_simp+

lemma toISOString_examples:
  "toISOString 1704099600000 = ''2024-01-01T09:00:00.000Z''"
  "toISOString 1704103200000 = ''2024-01-01T10:00:00.000Z''"
  "toISOString 1704079800000 = ''2024-01-01T03:30:00.000Z''"
  "toISOString 1704083400000 = ''2024-01-01T04:30:00.000Z''"
  by (simp_all add: toISOString_def civil_from_days_example pad_examples)

lemma wall_clock_examples:
  "wall_clock Asia_Kolkata 1704099600000 = (2024, 1, 1, 14, 30)"
  "wall_clock Asia_Kolkata 1704103200000 = (2024, 1, 1, 15, 30)"
  "wall_clock Asia_Kolkata 1704079800000 = (2024, 1, 1, 9, 0)"
  "wall_clock Asia_Kolkata 1704083400000 = (2024, 1, 1, 10, 0)"
  by (simp_all add: wall_clock_def Asia_Kolkata_def civil_from_days_example)

lemma show_nat_examples:
  "show_nat (Suc 0) = ''1''" "show_nat (Suc (Suc 0)) = ''2''"
  by code_simp+

lemma t_id_example_task: "t_id (example_task i d) = i"
  by (simp add: example_task_def)

lemma ev_id_example_event: "ev_id (example_event i s e) = i"
  by (simp add: example_event_def)

lemma eventId_examples:
  "eventId (example_task ''t1'' d) = ''momentumt1''"
  "eventId (example_task ''t2'' d) = ''momentumt2''"
  "eventId (example_task ''t3'' d) = ''momentumt3''"
  by (simp_all add: eventId_def example_task_def nonAlnum_def in_range_def)

lemma event_of_example_task:
  "event_of_task (Date_parse 0) (example_task i ''2024-01-01'')
     = Inr (example_event (eventId (example_task i ''2024-01-01''))
              ''2024-01-01T09:00:00.000Z'' ''2024-01-01T10:00:00.000Z'')"
  "event_of_task (Date_parse 330) (example_task i ''2024-01-01'')
     = Inr (example_event (eventId (example_task i ''2024-01-01''))
              ''2024-01-01T03:30:00.000Z'' ''2024-01-01T04:30:00.000Z'')"
  "event_of_task (Date_parse 0) (example_task i ''2024-13-45'') = Inl RangeError"
  by (simp_all add: event_of_task_def example_task_def new_Date_toISOString_def template_def
        or_default_def truthy_def Date_parse_examples toISOString_examples example_event_def
        eventId_def)

lemma parses_examples:
  "parses (Date_parse 0) (example_task i ''2024-01-01'')"
  "\<not> parses (Date_parse 0) (example_task i ''2024-13-45'')"
  by (simp_all add: parses_def example_task_def template_def Date_parse_examples)

lemma tasksToSync_example:
  "tasksToSync (example_task i d # ts) = example_task i d # tasksToSync ts"
  "tasksToSync [] = []"
  by (simp_all add: tasksToSync_filter nonempty_eligible_def example_task_def)

lemmas run_defs =
  sync_calendar_def example_runtime_def truthy_def template_def tasksToSync_example
  event_of_example_task eventId_examples keeping_insert_def failing_insert_def sync_failed_def
  RangeError_def integrations_path_def tasks_path_def one_task_def two_tasks_def
  three_tasks_def show_nat_0 show_nat_examples Asia_Kolkata_def Let_def ev_id_example_event
  t_id_example_task

lemma three_tasks_run_value:
  "three_tasks_run =
     (\<lparr>status = 500, body = ''Sync failed.''\<rparr>, [''momentumt1''],
      [DocGet ''users/u1/settings/integrations'', DocGet ''users/u1/data/tasks'',
       EventsInsert ''primary''
         (example_event ''momentumt1'' ''2024-01-01T09:00:00.000Z'' ''2024-01-01T10:00:00.000Z''),
       ConsoleError ''Sync failed for u1:'' ''Invalid time value''])"
  by (simp add: three_tasks_run_def run_defs)

lemma failed_insert_run_value:
  "failed_insert_run =
     (\<lparr>status = 200, body = ''Sync complete for u1. 1 new events created.''\<rparr>, [''momentumt2''],
      [DocGet ''users/u1/settings/integrations'', DocGet ''users/u1/data/tasks'',
       EventsInsert ''primary''
         (example_event ''momentumt1'' ''2024-01-01T09:00:00.000Z'' ''2024-01-01T10:00:00.000Z''),
       ConsoleError ''Error syncing task t1:'' ''Backend Error'',
       EventsInsert ''primary''
         (example_event ''momentumt2'' ''2024-01-01T09:00:00.000Z'' ''2024-01-01T10:00:00.000Z'')])"
  by (simp add: failed_insert_run_def flaky_insert_def run_defs)

lemma conflicting_insert_run_value:
  "conflicting_insert_run =
     (\<lparr>status = 200, body = ''Sync complete for u1. 1 new events created.''\<rparr>,
      [''momentumt1'', ''momentumt2''],
      [DocGet ''users/u1/settings/integrations'', DocGet ''users/u1/data/tasks'',
       EventsInsert ''primary''
         (example_event ''momentumt1'' ''2024-01-01T09:00:00.000Z'' ''2024-01-01T10:00:00.000Z''),
       EventsInsert ''primary''
         (example_event ''momentumt2'' ''2024-01-01T09:00:00.000Z'' ''2024-01-01T10:00:00.000Z'')])"
  by (simp add: conflicting_insert_run_def run_defs)

lemma first_run_value:
  "first_run =
     (\<lparr>status = 200, body = ''Sync complete for u1. 2 new events created.''\<rparr>,
      [''momentumt1'', ''momentumt2''],
      [DocGet ''users/u1/settings/integrations'', DocGet ''users/u1/data/tasks'',
       EventsInsert ''primary''
         (example_event ''momentumt1'' ''2024-01-01T09:00:00.000Z'' ''2024-01-01T10:00:00.000Z''),
       EventsInsert ''primary''
         (example_event ''momentumt2'' ''2024-01-01T09:00:00.000Z'' ''2024-01-01T10:00:00.000Z'')])"
  by (simp add: first_run_def run_defs)

lemma utc_server_run_value:
  "utc_server_run =
     (\<lparr>status = 200, body = ''Sync complete for u1. 1 new events created.''\<rparr>, [''momentumt1''],
      [DocGet ''users/u1/settings/integrations'', DocGet ''users/u1/data/tasks'',
       EventsInsert ''primary''
         (example_event ''momentumt1'' ''2024-01-01T09:00:00.000Z'' ''2024-01-01T10:00:00.000Z'')])"
  by (simp add: utc_server_run_def run_defs)

lemma kolkata_server_run_value:
  "kolkata_server_run =
     (\<lparr>status = 200, body = ''Sync complete for u1. 1 new events created.''\<rparr>, [''momentumt1''],
      [DocGet ''users/u1/settings/integrations'', DocGet ''users/u1/data/tasks'',
       EventsInsert ''primary''
         (example_event ''momentumt1'' ''2024-01-01T03:30:00.000Z'' ''2024-01-01T04:30:00.000Z'')])"
  by (simp add: kolkata_server_run_def run_defs)

text \<open>
  C3 on three eligible tasks, the second with the due date "2024-13-45", on a server in UTC
  with a calendar that accepts every new event. The claim asks that the failure stays with
  the second task and that the third task is still attempted. The handler answers 500
  "Sync failed.": its only insert attempt is the one for the first task, the third task is
  never attempted, and the one error logged is that of the whole sync, not an entry for the
  second task.
\<close>

theorem malformed_task_aborts_sync:
  "tasksToSync three_tasks = three_tasks
   \<and> \<not> parses (Date_parse 0) (example_task ''t2'' ''2024-13-45'')
   \<and> parses (Date_parse 0) (example_task ''t3'' ''2024-01-01'')
   \<and> fst three_tasks_run = \<lparr>status = 500, body = ''Sync failed.''\<rparr>
   \<and> map ev_id (inserts (snd (snd three_tasks_run))) = [''momentumt1'']
   \<and> errors_logged (snd (snd three_tasks_run))
       = [(''Sync failed for u1:'', ''Invalid time value'')]"
  by (simp add: three_tasks_run_value three_tasks_def tasksToSync_example parses_examples
        inserts_Cons errors_logged_Cons ev_id_example_event)

text \<open>
  C4 as the specification states it fails. Two tasks on a server in UTC. In one sync the
  insert of the first task fails with code 500 and the second task is inserted; in the other
  the first insert is answered with a conflict and the second task is inserted. Both return
  the same response, status 200 and "1 new events created": the failure is in the error log
  only.
\<close>

theorem insert_failure_returned_counterexample:
  "fst failed_insert_run
     = \<lparr>status = 200, body = ''Sync complete for u1. 1 new events created.''\<rparr>
   \<and> fst failed_insert_run = fst conflicting_insert_run
   \<and> errors_logged (snd (snd failed_insert_run))
       = [(''Error syncing task t1:'', ''Backend Error'')]
   \<and> errors_logged (snd (snd conflicting_insert_run)) = []"
  by (simp add: failed_insert_run_value conflicting_insert_run_value errors_logged_Cons)

text \<open>
  The amended C4 on the run in which the first insert fails: the second task is attempted
  after the failure, its insert is counted, and the failure of the first is in the log.
\<close>

theorem insert_failure_logged_witness:
  "fst failed_insert_run
     = \<lparr>status = 200, body = ''Sync complete for u1. 1 new events created.''\<rparr>
   \<and> map ev_id (inserts (snd (snd failed_insert_run))) = [''momentumt1'', ''momentumt2'']
   \<and> errors_logged (snd (snd failed_insert_run))
       = [(''Error syncing task t1:'', ''Backend Error'')]
   \<and> (''Error syncing task t1:'', ''Backend Error'')
       \<in> set (errors_logged (snd (snd failed_insert_run)))"
proof -
  let ?rt = "example_runtime 0 (Some two_tasks) flaky_insert"
  let ?ts = "[example_task ''t1'' ''2024-01-01'', example_task ''t2'' ''2024-01-01'']"
  let ?e = "\<lparr>err_code = Some 500, err_message = ''Backend Error''\<rparr>"
  have h1: "''u1'' \<noteq> []" by simp
  have h2: "integrations_get ?rt ''u1'' = Snapshot (Some \<lparr>googleCalendar = Some example_tokens\<rparr>)"
    by (simp add: example_runtime_def)
  have h3: "googleCalendar \<lparr>googleCalendar = Some example_tokens\<rparr> = Some example_tokens"
    by simp
  have h4: "tasks_get ?rt ''u1'' = Snapshot (Some two_tasks)"
    by (simp add: example_runtime_def)
  have h5: "tasks_list two_tasks = Some ?ts"
    by (simp add: two_tasks_def)
  have ts: "tasksToSync ?ts = ?ts"
    by (simp add: tasksToSync_example)
  have h6: "\<forall>t \<in> set (tasksToSync ?ts). parses (dateParse ?rt) t"
    by (simp add: ts example_runtime_def parses_examples)
  have h7: "[InsertRejected ?e, Inserted]
            = insert_results ?rt example_tokens []
                (mapped_events (dateParse ?rt) (tasksToSync ?ts))"
    by (simp add: ts mapped_events_def example_runtime_def event_of_example_task
          flaky_insert_def keeping_insert_def ev_id_example_event eventId_examples)
  have ids: "map eventId ?ts = [''momentumt1'', ''momentumt2'']"
    by (simp add: eventId_examples)
  have n: "show_nat (length (filter (\<lambda>r. r = Inserted) [InsertRejected ?e, Inserted])) = ''1''"
    by (simp add: show_nat_examples)
  have lines: "concat (map failure_lines (zip ?ts [InsertRejected ?e, Inserted]))
               = [(''Error syncing task t1:'', ''Backend Error'')]"
    by (simp add: failure_lines_def t_id_example_task)
  note w = insert_failure_logged [OF h1 h2 h3 h4 h5 h6 h7, unfolded ts ids n lines]
  have w1: "fst (sync_calendar ?rt [] (Some ''u1''))
            = \<lparr>status = 200, body = ''Sync complete for u1. 1 new events created.''\<rparr>"
    using w [THEN conjunct1] by simp
  have w2: "map ev_id (inserts (snd (snd (sync_calendar ?rt [] (Some ''u1'')))))
            = [''momentumt1'', ''momentumt2'']"
    using w [THEN conjunct2, THEN conjunct1] .
  have w3: "errors_logged (snd (snd (sync_calendar ?rt [] (Some ''u1''))))
            = [(''Error syncing task t1:'', ''Backend Error'')]"
    using w [THEN conjunct2, THEN conjunct2, THEN conjunct1] .
  have w4: "[InsertRejected ?e, Inserted] ! 0 = InsertRejected ?e \<and> err_code ?e \<noteq> Some 409 \<longrightarrow>
            (''Error syncing task '' @ t_id (?ts ! 0) @ '':'', err_message ?e)
              \<in> set (errors_logged (snd (snd (sync_calendar ?rt [] (Some ''u1'')))))"
    using w [THEN conjunct2, THEN conjunct2, THEN conjunct2, rule_format, of 0 ?e] by simp
  have w4': "(''Error syncing task t1:'', ''Backend Error'')
              \<in> set (errors_logged (snd (snd (sync_calendar ?rt [] (Some ''u1'')))))"
    using w4 by (simp add: t_id_example_task)
  show ?thesis
    unfolding failed_insert_run_def using w1 w2 w3 w4' by blast
qed

text \<open>
  C5 on a second sync of two tasks, run on the calendar that the first sync left: both
  inserts conflict, nothing is created and nothing is logged.
\<close>

theorem conflict_counts_as_success_witness:
  "fst first_run = \<lparr>status = 200, body = ''Sync complete for u1. 2 new events created.''\<rparr>
   \<and> fst second_run = \<lparr>status = 200, body = ''Sync complete for u1. 0 new events created.''\<rparr>
   \<and> map ev_id (inserts (snd (snd second_run))) = [''momentumt1'', ''momentumt2'']
   \<and> errors_logged (snd (snd second_run)) = []"
proof -
  let ?rt = "example_runtime 0 (Some two_tasks) keeping_insert"
  let ?ts = "[example_task ''t1'' ''2024-01-01'', example_task ''t2'' ''2024-01-01'']"
  let ?e = "\<lparr>err_code = Some 409, err_message = ''The requested identifier already exists.''\<rparr>"
  let ?cal = "[''momentumt1'', ''momentumt2'']"
  have cal: "fst (snd first_run) = ?cal"
    by (simp add: first_run_value)
  have h1: "''u1'' \<noteq> []" by simp
  have h2: "integrations_get ?rt ''u1'' = Snapshot (Some \<lparr>googleCalendar = Some example_tokens\<rparr>)"
    by (simp add: example_runtime_def)
  have h3: "googleCalendar \<lparr>googleCalendar = Some example_tokens\<rparr> = Some example_tokens"
    by simp
  have h4: "tasks_get ?rt ''u1'' = Snapshot (Some two_tasks)"
    by (simp add: example_runtime_def)
  have h5: "tasks_list two_tasks = Some ?ts"
    by (simp add: two_tasks_def)
  have ts: "tasksToSync ?ts = ?ts"
    by (simp add: tasksToSync_example)
  have all: "\<forall>t \<in> set ?ts. parses (dateParse ?rt) t"
    by (simp add: example_runtime_def parses_examples)
  have h6: "?ts = attempted (dateParse ?rt) (tasksToSync ?ts)"
    by (simp add: ts attempted_all [OF all])
  have h7: "[InsertRejected ?e, InsertRejected ?e]
            = insert_results ?rt example_tokens ?cal (mapped_events (dateParse ?rt) ?ts)"
    by (simp add: mapped_events_def example_runtime_def event_of_example_task
          keeping_insert_def ev_id_example_event eventId_examples)
  have ids: "map eventId ?ts = ?cal"
    by (simp add: eventId_examples)
  have conflicts: "\<forall>r \<in> set [InsertRejected ?e, InsertRejected ?e]. conflict r"
    by (simp add: conflict_def)
  note w = conflict_counts_as_success [OF h1 h2 h3 h4 h5 h6 h7, unfolded ts ids]
  note w1 = w [THEN conjunct1]
  note w5 = w [THEN conjunct2, THEN conjunct2, THEN conjunct2, THEN conjunct2, THEN mp,
               OF conjI [OF all conflicts]]
  have "fst first_run = \<lparr>status = 200, body = ''Sync complete for u1. 2 new events created.''\<rparr>"
    by (simp add: first_run_value)
  with w1 w5 show ?thesis
    unfolding second_run_def cal by simp
qed

text \<open>C6 for user "u2", who has no integrations document.\<close>

theorem no_credential_fails_fast_witness:
  "sync_calendar (example_runtime 0 (Some one_task) keeping_insert) [] (Some ''u2'')
     = (\<lparr>status = 404, body = ''User has not connected Google Calendar.''\<rparr>, [],
        [DocGet ''users/u2/settings/integrations''])
   \<and> ''users/u2/data/tasks''
       \<notin> set (docs_read (snd (snd (sync_calendar
                 (example_runtime 0 (Some one_task) keeping_insert) [] (Some ''u2'')))))
   \<and> sync_calendar
       ((example_runtime 0 (Some one_task) keeping_insert)
          \<lparr>tasks_get := \<lambda>uid. GetFailed \<lparr>err_code = None, err_message = ''unavailable''\<rparr>\<rparr>)
       [] (Some ''u2'')
     = sync_calendar (example_runtime 0 (Some one_task) keeping_insert) [] (Some ''u2'')"
proof -
  let ?rt = "example_runtime 0 (Some one_task) keeping_insert"
  have h1: "''u2'' \<noteq> []" by simp
  have h2: "integrations_get ?rt ''u2'' = Snapshot None
            \<or> (\<exists>tokenDoc. integrations_get ?rt ''u2'' = Snapshot (Some tokenDoc)
                 \<and> googleCalendar tokenDoc = None)"
    by (simp add: example_runtime_def)
  have p: "integrations_path ''u2'' = ''users/u2/settings/integrations''"
          "tasks_path ''u2'' = ''users/u2/data/tasks''"
    by (simp_all add: integrations_path_def tasks_path_def)
  note w = no_credential_fails_fast [OF h1 h2, of "[]"
             "\<lambda>uid. GetFailed \<lparr>err_code = None, err_message = ''unavailable''\<rparr>", unfolded p]
  show ?thesis
    using w by blast
qed

text \<open>C10 for user "u1" with a task document without a list.\<close>

theorem missing_list_is_empty_witness:
  "sync_calendar (example_runtime 0 (Some \<lparr>tasks_list = None\<rparr>) failing_insert) [] (Some ''u1'')
     = (\<lparr>status = 200, body = ''Sync complete for u1. 0 new events created.''\<rparr>, [],
        [DocGet ''users/u1/settings/integrations'', DocGet ''users/u1/data/tasks''])"
proof -
  let ?rt = "example_runtime 0 (Some \<lparr>tasks_list = None\<rparr>) failing_insert"
  have h1: "''u1'' \<noteq> []" by simp
  have h2: "integrations_get ?rt ''u1'' = Snapshot (Some \<lparr>googleCalendar = Some example_tokens\<rparr>)"
    by (simp add: example_runtime_def)
  have h3: "googleCalendar \<lparr>googleCalendar = Some example_tokens\<rparr> = Some example_tokens"
    by simp
  have h4: "tasks_get ?rt ''u1'' = Snapshot (Some \<lparr>tasks_list = None\<rparr>)"
    by (simp add: example_runtime_def)
  have h5: "tasks_list \<lparr>tasks_list = None\<rparr> = None"
    by simp
  have p: "integrations_path ''u1'' = ''users/u1/settings/integrations''"
          "tasks_path ''u1'' = ''users/u1/data/tasks''"
    by (simp_all add: integrations_path_def tasks_path_def)
  note w = missing_list_is_empty [OF h1 h2 h3 h4 h5, of "[]", unfolded p]
  show ?thesis
    using w by simp
qed

text \<open>
  C7 on a server whose local time is UTC. For the task with id "t1", due date "2024-01-01",
  start "09:00" and end "10:00", the sync makes one insert attempt with event id
  "momentumt1", reports 1 new event and logs no error. The start and end it sends are
  2024-01-01T09:00Z and 2024-01-01T10:00Z, labelled Asia/Kolkata: in Asia/Kolkata these
  instants are 14:30 and 15:30, not 09:00 and 10:00 as the claim says.
\<close>

theorem utc_server_event_times:
  "fst utc_server_run = \<lparr>status = 200, body = ''Sync complete for u1. 1 new events created.''\<rparr>
   \<and> errors_logged (snd (snd utc_server_run)) = []
   \<and> map ev_id (inserts (snd (snd utc_server_run))) = [''momentumt1'']
   \<and> map ev_start (inserts (snd (snd utc_server_run)))
       = [\<lparr>dateTime = ''2024-01-01T09:00:00.000Z'', timeZone = ''Asia/Kolkata''\<rparr>]
   \<and> map ev_end (inserts (snd (snd utc_server_run)))
       = [\<lparr>dateTime = ''2024-01-01T10:00:00.000Z'', timeZone = ''Asia/Kolkata''\<rparr>]
   \<and> map (start_in_zone Asia_Kolkata) (inserts (snd (snd utc_server_run)))
       = [Some (2024, 1, 1, 14, 30)]
   \<and> map (end_in_zone Asia_Kolkata) (inserts (snd (snd utc_server_run)))
       = [Some (2024, 1, 1, 15, 30)]"
  by (simp add: utc_server_run_value inserts_Cons errors_logged_Cons example_event_def
        start_in_zone_def end_in_zone_def Date_parse_examples wall_clock_examples)

text \<open>
  On a server whose local time is that of Asia/Kolkata the same task gives 09:00 and 10:00 in
  Asia/Kolkata: the event times depend on the server's local time zone.
\<close>

lemma kolkata_server_event_times:
  "fst kolkata_server_run
     = \<lparr>status = 200, body = ''Sync complete for u1. 1 new events created.''\<rparr>
   \<and> map ev_start (inserts (snd (snd kolkata_server_run)))
       = [\<lparr>dateTime = ''2024-01-01T03:30:00.000Z'', timeZone = ''Asia/Kolkata''\<rparr>]
   \<and> map (start_in_zone Asia_Kolkata) (inserts (snd (snd kolkata_server_run)))
       = [Some (2024, 1, 1, 9, 0)]
   \<and> map (end_in_zone Asia_Kolkata) (inserts (snd (snd kolkata_server_run)))
       = [Some (2024, 1, 1, 10, 0)]"
  by (simp add: kolkata_server_run_value inserts_Cons errors_logged_Cons example_event_def
        start_in_zone_def end_in_zone_def Date_parse_examples wall_clock_examples)

text \<open>
  The amended C2 on a list with an empty start time, a completed task and two eligible tasks.
\<close>

theorem tasksToSync_subsequence_witness:
  "tasksToSync [example_task ''t1'' ''2024-01-01'',
                (example_task ''t2'' ''2024-01-01'')\<lparr>startTime := Some ''''\<rparr>,
                (example_task ''t3'' ''2024-01-01'')\<lparr>completed := True\<rparr>,
                example_task ''t4'' ''2024-01-02'']
     = [example_task ''t1'' ''2024-01-01'', example_task ''t4'' ''2024-01-02'']"
  using tasksToSync_subsequence
    [of "[example_task ''t1'' ''2024-01-01'',
          (example_task ''t2'' ''2024-01-01'')\<lparr>startTime := Some ''''\<rparr>,
          (example_task ''t3'' ''2024-01-01'')\<lparr>completed := True\<rparr>,
          example_task ''t4'' ''2024-01-02'']" "example_task ''t1'' ''2024-01-01''"]
  by (simp add: nonempty_eligible_def example_task_def)

end
